theory Spec2Isabelle
  imports Complex_Main "HOL-Library.Monad_Syntax"
begin

section \<open>Curve generation of SlicerMarkupsToModel\<close>

text \<open>
  A shallow embedding of \<^verbatim>\<open>vtkSlicerMarkupsToModelCurveGeneration.cxx\<close>.

  \<^item> A C++ \<^verbatim>\<open>double\<close> is a \<^typ>\<open>real\<close>: arithmetic is exact, rounding is outside the
    model.  The one NaN that the file can make from finite numbers, \<open>0.0 / 0\<close> in line 665,
    is the field \<open>quietNaN\<close> of the record \<open>vtk\<close>.
  \<^item> A C++ \<^verbatim>\<open>int\<close> has 32 bits.  It is an \<^typ>\<open>int\<close>, and every size and every index that
    the source computes as a product in \<^verbatim>\<open>int\<close> goes through \<open>int32\<close>, which wraps it into
    the range from \<open>INT_MIN\<close> to \<open>INT_MAX\<close>.  The number of points of a \<^verbatim>\<open>vtkPoints\<close> and the number of
    tuples of an array are taken as they are, and so are the sums that cannot leave the
    range (a count less one, an index plus one, the order plus one).  In the polynomial
    fit the model keeps the rows of the matrices apart: there the sizes of the vectors go
    through \<open>int32\<close>, and a size that has wrapped ends the run.
  \<^item> A pointer argument is an \<open>option\<close>: \<open>None\<close> is \<^verbatim>\<open>NULL\<close>.
  \<^item> A \<^verbatim>\<open>void\<close> method that writes through a pointer returns the new contents of the
    object together with the warnings it printed (\<^verbatim>\<open>vtkGenericWarningMacro\<close>).
  \<^item> Where the source reads or writes outside a buffer or sizes a buffer with a negative
    count (undefined behaviour or an uncaught exception in C++), the run has no result:
    it is \<open>None\<close> in an outer \<open>option\<close>.
  \<^item> The classes of VTK that the file calls (\<^verbatim>\<open>vtkTubeFilter\<close>, \<^verbatim>\<open>vtkSphereSource\<close>, the
    two spline classes, \<^verbatim>\<open>vtkMath::SolveLeastSquares\<close>) are not part of the file: they are
    fields of the record \<open>vtk\<close>, a parameter of every definition that calls them.
\<close>

subsection \<open>Data\<close>

type_synonym point = "real \<times> real \<times> real"

text \<open>\<^verbatim>\<open>vtkPoints\<close>: an index-addressable sequence of points.\<close>

type_synonym vtkPoints = "point list"

text \<open>\<^verbatim>\<open>vtkDoubleArray\<close> with one component per tuple.\<close>

type_synonym vtkDoubleArray = "real list"

text \<open>
  \<^verbatim>\<open>vtkCellArray\<close>: each cell is the point count announced by \<^verbatim>\<open>InsertNextCell\<close> and the
  point ids added by \<^verbatim>\<open>InsertCellPoint\<close> since.
\<close>

type_synonym vtkCell = "int \<times> int list"
type_synonym vtkCellArray = "vtkCell list"

record vtkPolyData =
  Points :: vtkPoints
  Verts :: vtkCellArray
  Lines :: vtkCellArray
  Polys :: vtkCellArray
  Strips :: vtkCellArray

record vtkCardinalSpline =
  cs_Closed :: bool
  cs_Points :: "(real \<times> real) list"

record vtkKochanekSpline =
  ks_Closed :: bool
  ks_DefaultBias :: real
  ks_DefaultContinuity :: real
  ks_DefaultTension :: real
  ks_Points :: "(real \<times> real) list"
  ks_LeftConstraint :: int
  ks_LeftValue :: real
  ks_RightConstraint :: int
  ks_RightValue :: real

text \<open>
  The collaborators.  \<open>vtkTubeFilter input radius sides\<close> is the output of a capped tube
  filter, \<open>vtkSphereSource radius theta phi center\<close> the output of a sphere source,
  \<open>SolveLeastSquares numberOfSamples xt xOrder yt yOrder c d\<close> the entry of the solution
  buffer in row \<open>c\<close> (a coefficient) and column \<open>d\<close> (an axis) after the call, and \<open>uninitialized i\<close> what slot \<open>i\<close> of
  freshly sized point storage holds before it is written.  \<open>VTK_DOUBLE_MAX\<close> is the
  constant of that name in the headers of VTK, and \<open>quietNaN\<close> stands for the result of
  \<open>0.0 / 0\<close>.
\<close>

record vtk =
  vtkTubeFilter :: "vtkPolyData \<Rightarrow> real \<Rightarrow> int \<Rightarrow> vtkPolyData"
  vtkSphereSource :: "real \<Rightarrow> int \<Rightarrow> int \<Rightarrow> point \<Rightarrow> vtkPolyData"
  CardinalEvaluate :: "vtkCardinalSpline \<Rightarrow> real \<Rightarrow> real"
  KochanekEvaluate :: "vtkKochanekSpline \<Rightarrow> real \<Rightarrow> real"
  SolveLeastSquares ::
    "int \<Rightarrow> real list list \<Rightarrow> int \<Rightarrow> real list list \<Rightarrow> int \<Rightarrow> nat \<Rightarrow> nat \<Rightarrow> real"
  uninitialized :: "nat \<Rightarrow> point"
  VTK_DOUBLE_MAX :: real
  quietNaN :: real

text \<open>The warnings of the file, one constructor per message.\<close>

datatype warning =
    PointsToConnectNull
  | OutputTubeNull
  | SpherePointNull
  | OutputSphereNull
  | ControlPointsNull
  | InputPointsNull
  | IncorrectNumberOfParameters int int
  | UnsupportedPolynomialOrder int int
  | InputControlPointsNullReturning
  | OutputControlPointParametersNull
  | InputPointsNullReturning
  | OutputPointParametersNull
  | NotEnoughPoints int
  | AlreadyHasContents
  | ZeroDistance

subsection \<open>Machine integers\<close>

text \<open>
  \<open>int32 x\<close> is the \<^verbatim>\<open>int\<close> that the machine holds where the exact value is \<open>x\<close>: the value
  modulo \<open>2\<^sup>3\<^sup>2\<close> in the range of two's complement.  (Overflow of a signed \<^verbatim>\<open>int\<close> is
  undefined in C++; the compiled module wraps.)  Wrapping commutes with \<open>+\<close>, \<open>-\<close> and
  \<open>*\<close>, so one \<open>int32\<close> around an expression of these is the same as one around each
  of its operations.
\<close>

definition INT_MAX :: int where
  "INT_MAX = 2147483647"

definition INT_MIN :: int where
  "INT_MIN = - 2147483648"

definition int32 :: "int \<Rightarrow> int" where
  "int32 x = (x - INT_MIN) mod 4294967296 + INT_MIN"

subsection \<open>Buffers\<close>

definition GetPoint :: "vtkPoints \<Rightarrow> int \<Rightarrow> point option" where
  "GetPoint pts i = (if 0 \<le> i \<and> i < int (length pts) then Some (pts ! nat i) else None)"

definition SetPoint :: "vtkPoints \<Rightarrow> int \<Rightarrow> point \<Rightarrow> vtkPoints option" where
  "SetPoint pts i p = (if 0 \<le> i \<and> i < int (length pts) then Some (pts[nat i := p]) else None)"

definition SetNumberOfPoints :: "vtk \<Rightarrow> int \<Rightarrow> vtkPoints option" where
  "SetNumberOfPoints env n = (if n < 0 then None else Some (map (uninitialized env) [0..<nat n]))"

text \<open>\<^verbatim>\<open>for (int i = 0; i < n; i++)\<close> over a state, stopping where the body is undefined.\<close>

fun forEach :: "nat list \<Rightarrow> (nat \<Rightarrow> 's \<Rightarrow> 's option) \<Rightarrow> 's \<Rightarrow> 's option" where
  "forEach [] body s = Some s"
| "forEach (i # is) body s = (case body i s of None \<Rightarrow> None | Some s' \<Rightarrow> forEach is body s')"

definition InsertNextCell :: "int \<Rightarrow> vtkCellArray \<Rightarrow> vtkCellArray" where
  "InsertNextCell npts cells = cells @ [(npts, [])]"

definition InsertCellPoint :: "int \<Rightarrow> vtkCellArray \<Rightarrow> vtkCellArray" where
  "InsertCellPoint i cells =
     (case rev cells of [] \<Rightarrow> [] | (n, ids) # before \<Rightarrow> rev before @ [(n, ids @ [i])])"

definition Initialize :: vtkPolyData where
  "Initialize = \<lparr>Points = [], Verts = [], Lines = [], Polys = [], Strips = []\<rparr>"

subsection \<open>Mesh building\<close>

text \<open>The line mesh built at the start of \<^verbatim>\<open>GetTubePolyDataFromPoints\<close> (lines 184 to 196).\<close>

definition linePolyData :: "vtkPoints \<Rightarrow> vtkPolyData" where
  "linePolyData pointsToConnect =
     (let numPoints = int (length pointsToConnect);
          lineCellArray = fold (\<lambda>i. InsertCellPoint (int i)) [0..<nat numPoints]
                            (InsertNextCell numPoints [])
      in Initialize\<lparr>Points := pointsToConnect, Lines := lineCellArray\<rparr>)"

definition GetTubePolyDataFromPoints ::
  "vtk \<Rightarrow> vtkPoints option \<Rightarrow> vtkPolyData option \<Rightarrow> real \<Rightarrow> int
     \<Rightarrow> vtkPolyData option \<times> warning list" where
  "GetTubePolyDataFromPoints env pointsToConnect outputTube tubeRadius tubeNumberOfSides =
     (case pointsToConnect of
        None \<Rightarrow> (outputTube, [PointsToConnectNull])
      | Some pts \<Rightarrow>
         (case outputTube of
            None \<Rightarrow> (None, [OutputTubeNull])
          | Some _ \<Rightarrow>
             if tubeRadius > 0
             then (Some (vtkTubeFilter env (linePolyData pts) tubeRadius tubeNumberOfSides), [])
             else (Some (linePolyData pts), [])))"

definition GenerateSphereModel ::
  "vtk \<Rightarrow> point option \<Rightarrow> vtkPolyData option \<Rightarrow> real \<Rightarrow> int
     \<Rightarrow> vtkPolyData option \<times> warning list" where
  "GenerateSphereModel env point outputSphere sphereRadius sphereNumberOfSides =
     (case point of
        None \<Rightarrow> (outputSphere, [SpherePointNull])
      | Some p \<Rightarrow>
         (case outputSphere of
            None \<Rightarrow> (None, [OutputSphereNull])
          | Some _ \<Rightarrow>
             (Some (vtkSphereSource env sphereRadius sphereNumberOfSides sphereNumberOfSides p),
              [])))"

subsection \<open>Curve points\<close>

definition AllocateCurvePoints :: "vtk \<Rightarrow> vtkPoints \<Rightarrow> int \<Rightarrow> bool \<Rightarrow> vtkPoints option" where
  "AllocateCurvePoints env controlPoints tubeSegmentsBetweenControlPoints tubeLoop =
     (let numberControlPoints = int (length controlPoints) in
      if tubeLoop
      then SetNumberOfPoints env
             (int32 (numberControlPoints * tubeSegmentsBetweenControlPoints + 2))
      else SetNumberOfPoints env
             (int32 ((numberControlPoints - 1) * tubeSegmentsBetweenControlPoints + 1)))"

definition CloseLoop :: "vtkPoints \<Rightarrow> vtkPoints option" where
  "CloseLoop outputPoints =
     (case GetPoint outputPoints 0 of
        None \<Rightarrow> None
      | Some (x0, y0, z0) \<Rightarrow>
         (case GetPoint outputPoints 1 of
            None \<Rightarrow> None
          | Some (x1, y1, z1) \<Rightarrow>
             (let finalPoint = (x0 * 0.5 + x1 * 0.5, y0 * 0.5 + y1 * 0.5, z0 * 0.5 + z1 * 0.5)
              in case SetPoint outputPoints 0 finalPoint of
                   None \<Rightarrow> None
                 | Some moved \<Rightarrow>
                    (let finalIndex = int (length moved) - 1
                     in SetPoint moved finalIndex finalPoint))))"

text \<open>
  The number of segments to interpolate, and the last steps that the first three
  generators share: the final control point, then \<^verbatim>\<open>CloseLoop\<close> on a loop.
\<close>

definition numberSegmentsToInterpolate :: "vtkPoints \<Rightarrow> bool \<Rightarrow> int" where
  "numberSegmentsToInterpolate controlPoints tubeLoop =
     (let numberControlPoints = int (length controlPoints) in
      if tubeLoop then numberControlPoints else numberControlPoints - 1)"

definition finalControlPoint :: "vtkPoints \<Rightarrow> int \<Rightarrow> bool \<Rightarrow> int \<Rightarrow> vtkPoints \<Rightarrow> vtkPoints option" where
  "finalControlPoint controlPoints tubeSegmentsBetweenControlPoints tubeLoop controlPointIndex
       curvePoints =
     (let numberControlPoints = int (length controlPoints);
          controlPointIndex = controlPointIndex mod numberControlPoints
      in case GetPoint controlPoints controlPointIndex of
           None \<Rightarrow> None
         | Some finalPoint \<Rightarrow>
            (let finalIndex = int32 (tubeSegmentsBetweenControlPoints
                                       * numberSegmentsToInterpolate controlPoints tubeLoop)
             in SetPoint curvePoints finalIndex finalPoint))"

definition closeIfLoop :: "bool \<Rightarrow> vtkPoints \<Rightarrow> vtkPoints option" where
  "closeIfLoop tubeLoop curvePoints = (if tubeLoop then CloseLoop curvePoints else Some curvePoints)"

subsection \<open>The piecewise linear generator\<close>

definition linearCurvePoint :: "point \<Rightarrow> point \<Rightarrow> real \<Rightarrow> point" where
  "linearCurvePoint controlPointCurrent controlPointNext interpolationParam =
     (case (controlPointCurrent, controlPointNext) of
        ((cx, cy, cz), (nx, ny, nz)) \<Rightarrow>
          ((1.0 - interpolationParam) * cx + interpolationParam * nx,
           (1.0 - interpolationParam) * cy + interpolationParam * ny,
           (1.0 - interpolationParam) * cz + interpolationParam * nz))"

text \<open>The \<^verbatim>\<open>while\<close> loop of lines 287 to 311, with the \<^verbatim>\<open>for\<close> loop of lines 299 to 308 in it.\<close>

function linearSegments ::
  "vtkPoints \<Rightarrow> int \<Rightarrow> int \<Rightarrow> int \<Rightarrow> int \<Rightarrow> vtkPoints \<Rightarrow> (int \<times> vtkPoints) option" where
  "linearSegments controlPoints tubeSegmentsBetweenControlPoints segmentsToInterpolate
       controlPointIndex controlPointIndexNext curvePoints =
     (if controlPointIndex < segmentsToInterpolate then
        (case GetPoint controlPoints controlPointIndex of
           None \<Rightarrow> None
         | Some controlPointCurrent \<Rightarrow>
            (case GetPoint controlPoints
                    (if controlPointIndexNext \<ge> int (length controlPoints) then 0
                     else controlPointIndexNext) of
               None \<Rightarrow> None
             | Some controlPointNext \<Rightarrow>
                (case forEach [0..<nat tubeSegmentsBetweenControlPoints]
                        (\<lambda>i curve.
                           SetPoint curve
                             (int32 (controlPointIndex * tubeSegmentsBetweenControlPoints
                                     + int i))
                             (linearCurvePoint controlPointCurrent controlPointNext
                                (real i / real_of_int tubeSegmentsBetweenControlPoints)))
                        curvePoints of
                   None \<Rightarrow> None
                 | Some written \<Rightarrow>
                    linearSegments controlPoints tubeSegmentsBetweenControlPoints
                      segmentsToInterpolate (controlPointIndex + 1)
                      ((if controlPointIndexNext \<ge> int (length controlPoints) then 0
                        else controlPointIndexNext) + 1)
                      written)))
      else Some (controlPointIndex, curvePoints))"
  by pat_completeness auto
termination
  by (relation "measure (\<lambda>(cps, seg, n, i, nxt, curve). nat (n - i))") auto

declare linearSegments.simps [simp del]

text \<open>Lines 271 to 317: the samples before the loop is closed.\<close>

definition PiecewiseLinearSamples :: "vtk \<Rightarrow> vtkPoints \<Rightarrow> int \<Rightarrow> bool \<Rightarrow> vtkPoints option" where
  "PiecewiseLinearSamples env controlPoints tubeSegmentsBetweenControlPoints tubeLoop =
     (case AllocateCurvePoints env controlPoints tubeSegmentsBetweenControlPoints tubeLoop of
        None \<Rightarrow> None
      | Some curvePoints \<Rightarrow>
         (case linearSegments controlPoints tubeSegmentsBetweenControlPoints
                 (numberSegmentsToInterpolate controlPoints tubeLoop) 0 1 curvePoints of
            None \<Rightarrow> None
          | Some (controlPointIndex, written) \<Rightarrow>
             finalControlPoint controlPoints tubeSegmentsBetweenControlPoints tubeLoop
               controlPointIndex written))"

definition GeneratePiecewiseLinearCurveModel ::
  "vtk \<Rightarrow> vtkPoints option \<Rightarrow> vtkPolyData option \<Rightarrow> real \<Rightarrow> int \<Rightarrow> int \<Rightarrow> bool
     \<Rightarrow> (vtkPolyData option \<times> warning list) option" where
  "GeneratePiecewiseLinearCurveModel env controlPoints outputTubePolyData tubeRadius
       tubeNumberOfSides tubeSegmentsBetweenControlPoints tubeLoop =
     (case controlPoints of
        None \<Rightarrow> Some (outputTubePolyData, [ControlPointsNull])
      | Some cps \<Rightarrow>
         (case outputTubePolyData of
            None \<Rightarrow> Some (None, [OutputTubeNull])
          | Some _ \<Rightarrow>
             (let numberControlPoints = int (length cps) in
              if numberControlPoints \<le> 0 then Some (outputTubePolyData, [])
              else if numberControlPoints = 1 then
                Some (GenerateSphereModel env (GetPoint cps 0) outputTubePolyData tubeRadius
                        tubeNumberOfSides)
              else
                (case Option.bind
                        (PiecewiseLinearSamples env cps tubeSegmentsBetweenControlPoints tubeLoop)
                        (closeIfLoop tubeLoop) of
                   None \<Rightarrow> None
                 | Some curvePoints \<Rightarrow>
                    Some (GetTubePolyDataFromPoints env (Some curvePoints) outputTubePolyData
                            tubeRadius tubeNumberOfSides)))))"

subsection \<open>The spline generators\<close>

text \<open>
  A new spline is open, has no points, and both its end constraints are 1 with value 0 (the
  defaults of \<^verbatim>\<open>vtkSpline\<close>); a new Kochanek spline has bias, tension and continuity 0.
  \<^verbatim>\<open>AddPoint\<close> is called with increasing parameters, so it appends.
\<close>

definition NewCardinalSpline :: vtkCardinalSpline where
  "NewCardinalSpline = \<lparr>cs_Closed = False, cs_Points = []\<rparr>"

definition NewKochanekSpline :: vtkKochanekSpline where
  "NewKochanekSpline =
     \<lparr>ks_Closed = False, ks_DefaultBias = 0, ks_DefaultContinuity = 0, ks_DefaultTension = 0,
      ks_Points = [], ks_LeftConstraint = 1, ks_LeftValue = 0, ks_RightConstraint = 1,
      ks_RightValue = 0\<rparr>"

definition SetCardinalSplineParameters ::
  "vtkPoints \<Rightarrow> vtkCardinalSpline \<Rightarrow> vtkCardinalSpline \<Rightarrow> vtkCardinalSpline \<Rightarrow> bool
     \<Rightarrow> vtkCardinalSpline \<times> vtkCardinalSpline \<times> vtkCardinalSpline" where
  "SetCardinalSplineParameters controlPoints splineX splineY splineZ tubeLoop =
     (let closed = (\<lambda>s. if tubeLoop then s\<lparr>cs_Closed := True\<rparr> else s);
          numberControlPoints = int (length controlPoints)
      in fold (\<lambda>i (sx, sy, sz).
                 (case controlPoints ! i of
                    (x, y, z) \<Rightarrow>
                      (sx\<lparr>cs_Points := cs_Points sx @ [(real i, x)]\<rparr>,
                       sy\<lparr>cs_Points := cs_Points sy @ [(real i, y)]\<rparr>,
                       sz\<lparr>cs_Points := cs_Points sz @ [(real i, z)]\<rparr>)))
           [0..<nat numberControlPoints]
           (closed splineX, closed splineY, closed splineZ))"

definition SetKochanekSplineParameters ::
  "vtkPoints \<Rightarrow> vtkKochanekSpline \<Rightarrow> vtkKochanekSpline \<Rightarrow> vtkKochanekSpline \<Rightarrow> bool
     \<Rightarrow> real \<Rightarrow> real \<Rightarrow> real \<Rightarrow> bool
     \<Rightarrow> (vtkKochanekSpline \<times> vtkKochanekSpline \<times> vtkKochanekSpline) option" where
  "SetKochanekSplineParameters controlPoints splineX splineY splineZ tubeLoop
       kochanekBias kochanekContinuity kochanekTension kochanekEndsCopyNearestDerivatives =
     (let shape = (\<lambda>s. (if tubeLoop then s\<lparr>ks_Closed := True\<rparr> else s)
                          \<lparr>ks_DefaultBias := kochanekBias,
                           ks_DefaultContinuity := kochanekContinuity,
                           ks_DefaultTension := kochanekTension\<rparr>);
          numberControlPoints = int (length controlPoints);
          (sx, sy, sz) =
            fold (\<lambda>i (sx, sy, sz).
                    (case controlPoints ! i of
                       (x, y, z) \<Rightarrow>
                         (sx\<lparr>ks_Points := ks_Points sx @ [(real i, x)]\<rparr>,
                          sy\<lparr>ks_Points := ks_Points sy @ [(real i, y)]\<rparr>,
                          sz\<lparr>ks_Points := ks_Points sz @ [(real i, z)]\<rparr>)))
              [0..<nat numberControlPoints]
              (shape splineX, shape splineY, shape splineZ)
      in if kochanekEndsCopyNearestDerivatives then
           (case GetPoint controlPoints 0 of
              None \<Rightarrow> None
            | Some (x0, y0, z0) \<Rightarrow>
           (case GetPoint controlPoints 1 of
              None \<Rightarrow> None
            | Some (x1, y1, z1) \<Rightarrow>
           (case GetPoint controlPoints (numberControlPoints - 2) of
              None \<Rightarrow> None
            | Some (xm, ym, zm) \<Rightarrow>
           (case GetPoint controlPoints (numberControlPoints - 1) of
              None \<Rightarrow> None
            | Some (xn, yn, zn) \<Rightarrow>
               Some
                 (sx\<lparr>ks_LeftConstraint := 1, ks_LeftValue := x1 - x0,
                     ks_RightConstraint := 1, ks_RightValue := xn - xm\<rparr>,
                  sy\<lparr>ks_LeftConstraint := 1, ks_LeftValue := y1 - y0,
                     ks_RightConstraint := 1, ks_RightValue := yn - ym\<rparr>,
                  sz\<lparr>ks_LeftConstraint := 1, ks_LeftValue := z1 - z0,
                     ks_RightConstraint := 1, ks_RightValue := zn - zm\<rparr>)))))
         else
           Some (sx\<lparr>ks_LeftConstraint := 0, ks_RightConstraint := 0\<rparr>,
                 sy\<lparr>ks_LeftConstraint := 0, ks_RightConstraint := 0\<rparr>,
                 sz\<lparr>ks_LeftConstraint := 0, ks_RightConstraint := 0\<rparr>))"

text \<open>
  The \<^verbatim>\<open>while\<close> loop of lines 386 to 401, and of lines 478 to 493: the two are the same
  text but for the class of the splines, so \<open>evaluate\<close> stands for the three calls of
  \<^verbatim>\<open>Evaluate\<close>.
\<close>

function splineSegments ::
  "(real \<Rightarrow> point) \<Rightarrow> int \<Rightarrow> int \<Rightarrow> int \<Rightarrow> int \<Rightarrow> vtkPoints \<Rightarrow> (int \<times> vtkPoints) option" where
  "splineSegments evaluate tubeSegmentsBetweenControlPoints segmentsToInterpolate
       controlPointIndex controlPointIndexNext curvePoints =
     (if controlPointIndex < segmentsToInterpolate then
        (case forEach [0..<nat tubeSegmentsBetweenControlPoints]
                (\<lambda>i curve.
                   SetPoint curve
                     (int32 (controlPointIndex * tubeSegmentsBetweenControlPoints + int i))
                     (evaluate (real_of_int controlPointIndex
                                + real i / real_of_int tubeSegmentsBetweenControlPoints)))
                curvePoints of
           None \<Rightarrow> None
         | Some written \<Rightarrow>
            splineSegments evaluate tubeSegmentsBetweenControlPoints segmentsToInterpolate
              (controlPointIndex + 1) (controlPointIndexNext + 1) written)
      else Some (controlPointIndex, curvePoints))"
  by pat_completeness auto
termination
  by (relation "measure (\<lambda>(ev, seg, n, i, nxt, curve). nat (n - i))") auto

declare splineSegments.simps [simp del]

text \<open>Lines 371 to 407, and lines 463 to 499: the samples before the loop is closed.\<close>

definition SplineSamples :: "vtk \<Rightarrow> (real \<Rightarrow> point) \<Rightarrow> vtkPoints \<Rightarrow> int \<Rightarrow> bool \<Rightarrow> vtkPoints option" where
  "SplineSamples env evaluate controlPoints tubeSegmentsBetweenControlPoints tubeLoop =
     (case AllocateCurvePoints env controlPoints tubeSegmentsBetweenControlPoints tubeLoop of
        None \<Rightarrow> None
      | Some curvePoints \<Rightarrow>
         (case splineSegments evaluate tubeSegmentsBetweenControlPoints
                 (numberSegmentsToInterpolate controlPoints tubeLoop) 0 1 curvePoints of
            None \<Rightarrow> None
          | Some (controlPointIndex, written) \<Rightarrow>
             finalControlPoint controlPoints tubeSegmentsBetweenControlPoints tubeLoop
               controlPointIndex written))"

definition CardinalSplineSamples :: "vtk \<Rightarrow> vtkPoints \<Rightarrow> int \<Rightarrow> bool \<Rightarrow> vtkPoints option" where
  "CardinalSplineSamples env controlPoints tubeSegmentsBetweenControlPoints tubeLoop =
     (case SetCardinalSplineParameters controlPoints NewCardinalSpline NewCardinalSpline
             NewCardinalSpline tubeLoop of
        (splineX, splineY, splineZ) \<Rightarrow>
          SplineSamples env
            (\<lambda>t. (CardinalEvaluate env splineX t, CardinalEvaluate env splineY t,
                   CardinalEvaluate env splineZ t))
            controlPoints tubeSegmentsBetweenControlPoints tubeLoop)"

definition KochanekSplineSamples ::
  "vtk \<Rightarrow> vtkPoints \<Rightarrow> int \<Rightarrow> bool \<Rightarrow> real \<Rightarrow> real \<Rightarrow> real \<Rightarrow> bool \<Rightarrow> vtkPoints option" where
  "KochanekSplineSamples env controlPoints tubeSegmentsBetweenControlPoints tubeLoop
       kochanekBias kochanekContinuity kochanekTension kochanekEndsCopyNearestDerivatives =
     (case SetKochanekSplineParameters controlPoints NewKochanekSpline NewKochanekSpline
             NewKochanekSpline tubeLoop kochanekBias kochanekContinuity kochanekTension
             kochanekEndsCopyNearestDerivatives of
        None \<Rightarrow> None
      | Some (splineX, splineY, splineZ) \<Rightarrow>
          SplineSamples env
            (\<lambda>t. (KochanekEvaluate env splineX t, KochanekEvaluate env splineY t,
                   KochanekEvaluate env splineZ t))
            controlPoints tubeSegmentsBetweenControlPoints tubeLoop)"

definition GenerateCardinalSplineCurveModel ::
  "vtk \<Rightarrow> vtkPoints option \<Rightarrow> vtkPolyData option \<Rightarrow> real \<Rightarrow> int \<Rightarrow> int \<Rightarrow> bool
     \<Rightarrow> (vtkPolyData option \<times> warning list) option" where
  "GenerateCardinalSplineCurveModel env controlPoints outputTubePolyData tubeRadius
       tubeNumberOfSides tubeSegmentsBetweenControlPoints tubeLoop =
     (case controlPoints of
        None \<Rightarrow> Some (outputTubePolyData, [ControlPointsNull])
      | Some cps \<Rightarrow>
         (case outputTubePolyData of
            None \<Rightarrow> Some (None, [OutputTubeNull])
          | Some _ \<Rightarrow>
             (let numberControlPoints = int (length cps) in
              if numberControlPoints \<le> 0 then Some (outputTubePolyData, [])
              else if numberControlPoints = 1 then
                Some (GenerateSphereModel env (GetPoint cps 0) outputTubePolyData tubeRadius
                        tubeNumberOfSides)
              else if numberControlPoints = 2 then
                GeneratePiecewiseLinearCurveModel env controlPoints outputTubePolyData
                  tubeRadius tubeNumberOfSides tubeSegmentsBetweenControlPoints tubeLoop
              else
                (case Option.bind
                        (CardinalSplineSamples env cps tubeSegmentsBetweenControlPoints tubeLoop)
                        (closeIfLoop tubeLoop) of
                   None \<Rightarrow> None
                 | Some curvePoints \<Rightarrow>
                    Some (GetTubePolyDataFromPoints env (Some curvePoints) outputTubePolyData
                            tubeRadius tubeNumberOfSides)))))"

definition GenerateKochanekSplineCurveModel ::
  "vtk \<Rightarrow> vtkPoints option \<Rightarrow> vtkPolyData option \<Rightarrow> real \<Rightarrow> int \<Rightarrow> int \<Rightarrow> bool
     \<Rightarrow> real \<Rightarrow> real \<Rightarrow> real \<Rightarrow> bool
     \<Rightarrow> (vtkPolyData option \<times> warning list) option" where
  "GenerateKochanekSplineCurveModel env controlPoints outputTubePolyData tubeRadius
       tubeNumberOfSides tubeSegmentsBetweenControlPoints tubeLoop
       kochanekBias kochanekContinuity kochanekTension kochanekEndsCopyNearestDerivatives =
     (case controlPoints of
        None \<Rightarrow> Some (outputTubePolyData, [ControlPointsNull])
      | Some cps \<Rightarrow>
         (case outputTubePolyData of
            None \<Rightarrow> Some (None, [OutputTubeNull])
          | Some _ \<Rightarrow>
             (let numberControlPoints = int (length cps) in
              if numberControlPoints \<le> 0 then Some (outputTubePolyData, [])
              else if numberControlPoints = 1 then
                Some (GenerateSphereModel env (GetPoint cps 0) outputTubePolyData tubeRadius
                        tubeNumberOfSides)
              else if numberControlPoints = 2 then
                GeneratePiecewiseLinearCurveModel env controlPoints outputTubePolyData
                  tubeRadius tubeNumberOfSides tubeSegmentsBetweenControlPoints tubeLoop
              else
                (case Option.bind
                        (KochanekSplineSamples env cps tubeSegmentsBetweenControlPoints tubeLoop
                           kochanekBias kochanekContinuity kochanekTension
                           kochanekEndsCopyNearestDerivatives)
                        (closeIfLoop tubeLoop) of
                   None \<Rightarrow> None
                 | Some curvePoints \<Rightarrow>
                    Some (GetTubePolyDataFromPoints env (Some curvePoints) outputTubePolyData
                            tubeRadius tubeNumberOfSides)))))"

subsection \<open>Parameters from indices\<close>

text \<open>\<^verbatim>\<open>while (a->GetNumberOfTuples()) a->RemoveLastTuple();\<close>\<close>

fun RemoveAllTuples :: "vtkDoubleArray \<Rightarrow> vtkDoubleArray" where
  "RemoveAllTuples a = (if length a \<noteq> 0 then RemoveAllTuples (butlast a) else a)"

definition InsertNextTuple1 :: "real \<Rightarrow> vtkDoubleArray \<Rightarrow> vtkDoubleArray" where
  "InsertNextTuple1 x a = a @ [x]"

definition ComputePointParametersFromIndices ::
  "vtkPoints option \<Rightarrow> vtkDoubleArray option \<Rightarrow> vtkDoubleArray option \<times> warning list" where
  "ComputePointParametersFromIndices points pointParameters =
     (case points of
        None \<Rightarrow> (pointParameters, [InputControlPointsNullReturning])
      | Some pts \<Rightarrow>
         (case pointParameters of
            None \<Rightarrow> (None, [OutputControlPointParametersNull])
          | Some params \<Rightarrow>
             (let numPoints = int (length pts) in
              if numPoints < 2 then (Some params, [NotEnoughPoints numPoints])
              else
                (let (cleared, ws) =
                       (if length params \<noteq> 0 then (RemoveAllTuples params, [AlreadyHasContents])
                        else (params, []))
                 in (Some (fold (\<lambda>v. InsertNextTuple1 (real v / real_of_int (numPoints - 1)))
                             [0..<nat numPoints] cleared),
                     ws)))))"

declare RemoveAllTuples.simps [simp del]

subsection \<open>The polynomial generator\<close>

definition maximumPolynomialOrder :: int where
  "maximumPolynomialOrder = 6"

text \<open>Lines 574 to 581: the order that is used, and the warning when it was lowered.\<close>

definition clampPolynomialOrder :: "int \<Rightarrow> int \<times> warning list" where
  "clampPolynomialOrder polynomialOrder =
     (if polynomialOrder > maximumPolynomialOrder
      then (maximumPolynomialOrder,
            [UnsupportedPolynomialOrder polynomialOrder maximumPolynomialOrder])
      else (polynomialOrder, []))"

text \<open>Lines 583 to 593; the \<^verbatim>\<open>std::set\<close> counts the distinct parameters.\<close>

definition numPolynomialCoefficients :: "int \<Rightarrow> int \<Rightarrow> vtkDoubleArray \<Rightarrow> int" where
  "numPolynomialCoefficients polynomialOrder numPoints pointParameters =
     (let numUniquePointParameters =
            int (length (remdups (map (\<lambda>i. pointParameters ! i) [0..<nat numPoints])))
      in if numUniquePointParameters < polynomialOrder + 1 then numUniquePointParameters
         else polynomialOrder + 1)"

text \<open>Lines 596 to 635: the two matrices, a row per point.\<close>

definition independentMatrix :: "vtkDoubleArray \<Rightarrow> int \<Rightarrow> int \<Rightarrow> real list list" where
  "independentMatrix pointParameters numPoints numCoefficients =
     map (\<lambda>p. map (\<lambda>c. (pointParameters ! p) ^ c) [0..<nat numCoefficients])
       [0..<nat numPoints]"

definition dependentMatrix :: "vtkPoints \<Rightarrow> int \<Rightarrow> real list list" where
  "dependentMatrix points numPoints =
     map (\<lambda>p. case points ! p of (x, y, z) \<Rightarrow> [x, y, z]) [0..<nat numPoints]"

text \<open>Lines 638 to 649: the solution of the least squares problem.\<close>

definition coefficientMatrix :: "vtk \<Rightarrow> vtkPoints \<Rightarrow> int \<Rightarrow> vtkDoubleArray \<Rightarrow> nat \<Rightarrow> nat \<Rightarrow> real" where
  "coefficientMatrix env points numCoefficients pointParameters =
     (let numPoints = int (length points)
      in SolveLeastSquares env numPoints
           (independentMatrix pointParameters numPoints numCoefficients)
           numCoefficients (dependentMatrix points numPoints) 3)"

text \<open>
  Lines 658 to 667: the point of the curve with index \<open>p\<close>.  Its parameter is
  \<^verbatim>\<open>double(p) / (numPointsOnCurve - 1)\<close>.  On a curve of one point that is \<open>0.0 / 0\<close>, a NaN;
  \<^verbatim>\<open>std::pow\<close> of a NaN is 1 for the exponent 0 and a NaN for any other, so the sum is a NaN
  as soon as there are two coefficients.
\<close>

definition polynomialPoint ::
  "vtk \<Rightarrow> (nat \<Rightarrow> nat \<Rightarrow> real) \<Rightarrow> int \<Rightarrow> int \<Rightarrow> nat \<Rightarrow> point" where
  "polynomialPoint env coefficient numCoefficients numPointsOnCurve p =
     (let pointMm =
            (\<lambda>d. if numPointsOnCurve - 1 = 0 \<and> p = 0 \<and> 2 \<le> numCoefficients
                 then quietNaN env
                 else fold (\<lambda>c sum. sum + coefficient c d
                                          * (real p / real_of_int (numPointsOnCurve - 1)) ^ c)
                        [0..<nat numCoefficients] 0.0)
      in (pointMm 0, pointMm 1, pointMm 2))"

text \<open>
  Lines 583 to 676: the fit and the line mesh of its samples.  The sizes of the vectors of
  lines 597, 618 and 639 are products in \<^verbatim>\<open>int\<close>.  A vector of a negative size throws, and
  so does the vector of line 641 when the number of coefficients is negative.  Where a size
  is not negative but has wrapped, the vector is shorter than the rows that lines 604 and
  626 write into it, and a write leaves the vector.  With no coefficient the loops of
  lines 599 and 662 do nothing, and every sample is the origin.  The loop of line 656 runs
  \<^verbatim>\<open>numPointsOnCurve\<close> times, not at all when that is negative, and \<^verbatim>\<open>InsertPoint\<close> grows the
  points by one each time.
\<close>

definition PolynomialSamples ::
  "vtk \<Rightarrow> vtkPoints \<Rightarrow> int \<Rightarrow> int \<Rightarrow> vtkDoubleArray \<Rightarrow> vtkPolyData option" where
  "PolynomialSamples env points tubeSegmentsBetweenControlPoints polynomialOrder
       pointParameters =
     (let numPoints = int (length points);
          numCoefficients = numPolynomialCoefficients polynomialOrder numPoints pointParameters;
          numIndependentValues = int32 (numPoints * numCoefficients);
          numDimensions = 3;
          numDependentValues = int32 (numPoints * numDimensions);
          totalNumberCoefficients = int32 (numDimensions * numCoefficients)
      in if numIndependentValues < 0 \<or> numDependentValues < 0 \<or> totalNumberCoefficients < 0
            \<or> numCoefficients < 0
         then None
         else if numIndependentValues \<noteq> numPoints * numCoefficients
                 \<or> numDependentValues \<noteq> numPoints * numDimensions
         then None
         else
           (let coefficient = coefficientMatrix env points numCoefficients pointParameters;
                numPointsOnCurve =
                  int32 ((numPoints - 1) * tubeSegmentsBetweenControlPoints + 1)
            in Some (Initialize
                   \<lparr>Points := map (polynomialPoint env coefficient numCoefficients
                                       numPointsOnCurve)
                                [0..<nat numPointsOnCurve],
                    Lines := fold (\<lambda>p. InsertCellPoint (int p)) [0..<nat numPointsOnCurve]
                               (InsertNextCell numPointsOnCurve [])\<rparr>)))"

text \<open>
  Line 690 names \<^verbatim>\<open>outputTube\<close>, which is neither a parameter nor a local variable of
  \<^verbatim>\<open>GeneratePolynomialCurveModel\<close>.  The model keeps the object of that name apart from the
  parameter \<^verbatim>\<open>outputTubePolyData\<close>: it is the fourth argument, and the result is the
  contents of \<^verbatim>\<open>outputTubePolyData\<close>, the contents of \<^verbatim>\<open>outputTube\<close> and the warnings.
\<close>

definition GeneratePolynomialCurveModel ::
  "vtk \<Rightarrow> vtkPoints option \<Rightarrow> vtkPolyData option \<Rightarrow> vtkPolyData option \<Rightarrow> real \<Rightarrow> int \<Rightarrow> int
     \<Rightarrow> bool \<Rightarrow> int \<Rightarrow> vtkDoubleArray option
     \<Rightarrow> (vtkPolyData option \<times> vtkPolyData option \<times> warning list) option" where
  "GeneratePolynomialCurveModel env points outputTubePolyData outputTube tubeRadius
       tubeNumberOfSides tubeSegmentsBetweenControlPoints tubeLoop polynomialOrder
       inputPointParameters =
     (case points of
        None \<Rightarrow> Some (outputTubePolyData, outputTube, [InputPointsNull])
      | Some pts \<Rightarrow>
         (case outputTubePolyData of
            None \<Rightarrow> Some (None, outputTube, [OutputTubeNull])
          | Some _ \<Rightarrow>
             (let numPoints = int (length pts) in
              if numPoints \<le> 0 then Some (outputTubePolyData, outputTube, [])
              else if numPoints = 1 then
                (case GenerateSphereModel env (GetPoint pts 0) outputTubePolyData tubeRadius
                        tubeNumberOfSides of
                   (sphere, ws) \<Rightarrow> Some (sphere, outputTube, ws))
              else if numPoints = 2 then
                (case GeneratePiecewiseLinearCurveModel env points outputTubePolyData tubeRadius
                        tubeNumberOfSides tubeSegmentsBetweenControlPoints tubeLoop of
                   None \<Rightarrow> None
                 | Some (tube, ws) \<Rightarrow> Some (tube, outputTube, ws))
              else
                (case (case inputPointParameters of
                         None \<Rightarrow> ComputePointParametersFromIndices points (Some [])
                       | Some given \<Rightarrow>
                           if int (length given) \<noteq> numPoints
                           then (None,
                                 [IncorrectNumberOfParameters numPoints (int (length given))])
                           else (Some given, [])) of
                   (None, ws) \<Rightarrow> Some (outputTubePolyData, outputTube, ws)
                 | (Some pointParameters, ws) \<Rightarrow>
                    (case clampPolynomialOrder polynomialOrder of
                       (order, lowered) \<Rightarrow>
                         (case PolynomialSamples env pts tubeSegmentsBetweenControlPoints order
                                 pointParameters of
                            None \<Rightarrow> None
                          | Some smoothedSegments \<Rightarrow>
                             if tubeRadius > 0 then
                               Some (Some (vtkTubeFilter env smoothedSegments tubeRadius
                                             tubeNumberOfSides),
                                     outputTube, ws @ lowered)
                             else
                               (case outputTube of
                                  None \<Rightarrow> None
                                | Some _ \<Rightarrow>
                                   Some (outputTubePolyData, Some smoothedSegments,
                                         ws @ lowered))))))))"

subsection \<open>Parameters from the minimum spanning tree\<close>

definition dist3D :: "point \<Rightarrow> point \<Rightarrow> real" where
  "dist3D pointU pointV =
     (case (pointU, pointV) of
        ((ux, uy, uz), (vx, vy, vz)) \<Rightarrow>
          (let distX = ux - vx; distXsq = distX * distX;
               distY = uy - vy; distYsq = distY * distY;
               distZ = uz - vz; distZsq = distZ * distZ
           in sqrt (distXsq + distYsq + distZsq)))"

text \<open>
  Lines 766 to 792: the distances, and the first pair of points that is farthest apart.
  The size of \<^verbatim>\<open>distances\<close> and the index of line 784 are computed in \<^verbatim>\<open>int\<close>; a negative size
  throws, and a write has to lie inside the vector.
\<close>

record farthest =
  distances :: "real list"
  treeStartIndex :: int
  treeEndIndex :: int
  maximumDistance :: real

definition measurePair :: "vtkPoints \<Rightarrow> nat \<Rightarrow> nat \<Rightarrow> farthest \<Rightarrow> farthest option" where
  "measurePair points v u g =
     (let numPoints = int (length points);
          dist = dist3D (points ! u) (points ! v);
          index = int32 (int v * numPoints + int u)
      in if index < 0 \<or> int (length (distances g)) \<le> index then None
         else
           (let g = g\<lparr>distances := (distances g)[nat index := dist]\<rparr>
            in if dist > maximumDistance g
               then Some (g\<lparr>maximumDistance := dist, treeStartIndex := int v,
                             treeEndIndex := int u\<rparr>)
               else Some g))"

definition measureAllPairs :: "vtkPoints \<Rightarrow> farthest option" where
  "measureAllPairs points =
     (let numPoints = int (length points);
          numDistances = int32 (numPoints * numPoints)
      in if numDistances < 0 then None
         else forEach [0..<nat numPoints]
                (\<lambda>v. forEach [0..<nat numPoints] (\<lambda>u. measurePair points v u))
                \<lparr>distances = replicate (nat numDistances) 0.0, treeStartIndex = 0,
                 treeEndIndex = 0, maximumDistance = 0\<rparr>)"

text \<open>
  Lines 794 to 798: \<^verbatim>\<open>graph[v]\<close> points at \<^verbatim>\<open>distances[v * numPoints]\<close>, with the product in
  \<^verbatim>\<open>int\<close>, so \<^verbatim>\<open>graph[v][u]\<close> is the element \<open>u\<close> places after it.  The row pointer exists for
  \<open>0 \<le> v < numPoints\<close>, and the element has to lie inside \<^verbatim>\<open>distances\<close>.
\<close>

definition graph :: "real list \<Rightarrow> int \<Rightarrow> int \<Rightarrow> int \<Rightarrow> real option" where
  "graph dists numPoints v u =
     (let row = int32 (v * numPoints)
      in if 0 \<le> v \<and> v < numPoints \<and> 0 \<le> row + u \<and> row + u < int (length dists)
         then Some (dists ! nat (row + u)) else None)"

text \<open>Lines 802 to 852: the algorithm of Prim.\<close>

record prim =
  parent :: "int list"
  key :: "real list"
  mstSet :: "bool list"

definition pickMinimumKey :: "vtk \<Rightarrow> nat \<Rightarrow> prim \<Rightarrow> int \<times> real" where
  "pickMinimumKey env numPoints t =
     fold (\<lambda>v (nextPointIndex, minDistance).
             if mstSet t ! v = False \<and> key t ! v < minDistance then (int v, key t ! v)
             else (nextPointIndex, minDistance))
       [0..<numPoints] (-1, VTK_DOUBLE_MAX env)"

definition updateKeys :: "real list \<Rightarrow> nat \<Rightarrow> int \<Rightarrow> prim \<Rightarrow> prim option" where
  "updateKeys dists numPoints nextPointIndex t =
     forEach [0..<numPoints]
       (\<lambda>v t. case graph dists (int numPoints) nextPointIndex (int v) of
                 None \<Rightarrow> None
               | Some d \<Rightarrow>
                   if d \<ge> 0 \<and> mstSet t ! v = False \<and> d < key t ! v
                   then Some (t\<lparr>parent := (parent t)[v := nextPointIndex],
                                 key := (key t)[v := d]\<rparr>)
                   else Some t)
       t"

text \<open>
  One round of the loop of line 818.  When no vertex is picked, \<^verbatim>\<open>nextPointIndex\<close> is
  still \<open>-1\<close>, and line 834 writes before the start of \<^verbatim>\<open>mstSet\<close>.
\<close>

definition primRound :: "vtk \<Rightarrow> real list \<Rightarrow> nat \<Rightarrow> prim \<Rightarrow> prim option" where
  "primRound env dists numPoints t =
     (case pickMinimumKey env numPoints t of
        (nextPointIndex, minDistance) \<Rightarrow>
          if nextPointIndex < 0 then None
          else updateKeys dists numPoints nextPointIndex
                 (t\<lparr>mstSet := (mstSet t)[nat nextPointIndex := True]\<rparr>))"

definition primMST :: "vtk \<Rightarrow> real list \<Rightarrow> nat \<Rightarrow> int \<Rightarrow> prim option" where
  "primMST env dists numPoints treeStart =
     forEach [0..<numPoints - 1] (\<lambda>count. primRound env dists numPoints)
       \<lparr>parent = (replicate numPoints 0)[nat treeStart := -1],
        key = (replicate numPoints (VTK_DOUBLE_MAX env))[nat treeStart := 0.0],
        mstSet = replicate numPoints False\<rparr>"

text \<open>Lines 855 to 861: from the end of the trunk up to the root.\<close>

partial_function (option) trunkPath :: "int list \<Rightarrow> int \<Rightarrow> int list \<Rightarrow> int list option" where
  "trunkPath parents currentPathIndex pathIndices =
     (if currentPathIndex \<noteq> -1 then
        (if 0 \<le> currentPathIndex \<and> currentPathIndex < int (length parents)
         then trunkPath parents (parents ! nat currentPathIndex)
                (pathIndices @ [currentPathIndex])
         else None)
      else Some pathIndices)"

text \<open>Lines 864 to 868.\<close>

definition sumOfDistances :: "real list \<Rightarrow> int \<Rightarrow> int list \<Rightarrow> real option" where
  "sumOfDistances dists numPoints pathIndices =
     forEach [0..<length pathIndices - 1]
       (\<lambda>i sum. case graph dists numPoints (int i) (int i + 1) of
                   None \<Rightarrow> None
                 | Some d \<Rightarrow> Some (sum + d))
       0.0"

text \<open>Lines 878 to 885: the parameters along the trunk, and the distance walked.\<close>

definition pathParameters :: "real list \<Rightarrow> int \<Rightarrow> int list \<Rightarrow> real \<Rightarrow> real list option" where
  "pathParameters dists numPoints pathIndices pathLength =
     (case forEach [0..<length pathIndices - 1]
             (\<lambda>i (params, currentDistance).
                case graph dists numPoints (int i) (int i + 1) of
                  None \<Rightarrow> None
                | Some d \<Rightarrow> Some (params @ [currentDistance / pathLength], currentDistance + d))
             ([], 0.0) of
        None \<Rightarrow> None
      | Some (params, currentDistance) \<Rightarrow> Some (params @ [currentDistance / pathLength]))"

text \<open>Lines 901 to 909 and 913 to 921: the first place of a vertex on the trunk.\<close>

fun findAlongPath :: "int list \<Rightarrow> int \<Rightarrow> nat \<Rightarrow> nat option" where
  "findAlongPath [] currentIndex j = None"
| "findAlongPath (x # xs) currentIndex j =
     (if x = currentIndex then Some j else findAlongPath xs currentIndex (Suc j))"

text \<open>Lines 898 to 922: up the tree until a vertex of the trunk is met.\<close>

partial_function (option) climbToPath :: "int list \<Rightarrow> int list \<Rightarrow> int \<Rightarrow> nat option" where
  "climbToPath parents pathIndices currentIndex =
     (if findAlongPath pathIndices currentIndex 0 = None then
        (if 0 \<le> currentIndex \<and> currentIndex < int (length parents)
         then climbToPath parents pathIndices (parents ! nat currentIndex)
         else None)
      else findAlongPath pathIndices currentIndex 0)"

text \<open>Lines 896 to 924.\<close>

definition assignParameters ::
  "int list \<Rightarrow> int list \<Rightarrow> real list \<Rightarrow> nat \<Rightarrow> vtkDoubleArray \<Rightarrow> vtkDoubleArray option" where
  "assignParameters parents pathIndices params numPoints pointParameters =
     forEach [0..<numPoints]
       (\<lambda>i a. case climbToPath parents pathIndices (int i) of
                 None \<Rightarrow> None
               | Some indexAlongPath \<Rightarrow>
                   if indexAlongPath < length params
                   then Some (InsertNextTuple1 (params ! indexAlongPath) a) else None)
       pointParameters"

definition ComputePointParametersFromMinimumSpanningTree ::
  "vtk \<Rightarrow> vtkPoints option \<Rightarrow> vtkDoubleArray option
     \<Rightarrow> (vtkDoubleArray option \<times> warning list) option" where
  "ComputePointParametersFromMinimumSpanningTree env points pointParameters =
     (case points of
        None \<Rightarrow> Some (pointParameters, [InputPointsNullReturning])
      | Some pts \<Rightarrow>
         (case pointParameters of
            None \<Rightarrow> Some (None, [OutputPointParametersNull])
          | Some given \<Rightarrow>
             (let numPoints = int (length pts) in
              if numPoints < 2 then Some (Some given, [NotEnoughPoints numPoints])
              else
                (case measureAllPairs pts of
                   None \<Rightarrow> None
                 | Some g \<Rightarrow>
                 (case primMST env (distances g) (length pts) (treeStartIndex g) of
                   None \<Rightarrow> None
                 | Some t \<Rightarrow>
                 (case trunkPath (parent t) (treeEndIndex g) [] of
                   None \<Rightarrow> None
                 | Some pathIndices \<Rightarrow>
                 (case sumOfDistances (distances g) numPoints pathIndices of
                   None \<Rightarrow> None
                 | Some pathLength \<Rightarrow>
                    if pathLength = 0 then Some (Some given, [ZeroDistance])
                    else
                 (case pathParameters (distances g) numPoints pathIndices pathLength of
                   None \<Rightarrow> None
                 | Some params \<Rightarrow>
                    (let (cleared, ws) =
                           (if length given > 0
                            then (RemoveAllTuples given, [AlreadyHasContents])
                            else (given, []))
                     in case assignParameters (parent t) pathIndices params (length pts)
                               cleared of
                          None \<Rightarrow> None
                        | Some assigned \<Rightarrow> Some (Some assigned, ws))))))))))"

subsection \<open>The seam of a loop\<close>

text \<open>
  What \<^verbatim>\<open>CloseLoop\<close> is for: \<open>seamClosed dense joined\<close> says that \<^verbatim>\<open>CloseLoop\<close> turns the samples
  \<open>dense\<close> into \<open>joined\<close>, of the same length, whose first point and whose point in the last
  slot are the midpoint of the first two samples.
\<close>

definition midpointOf :: "point \<Rightarrow> point \<Rightarrow> point" where
  "midpointOf p q =
     (case (p, q) of
        ((x0, y0, z0), (x1, y1, z1)) \<Rightarrow>
          (x0 * 0.5 + x1 * 0.5, y0 * 0.5 + y1 * 0.5, z0 * 0.5 + z1 * 0.5))"

definition seamClosed :: "vtkPoints \<Rightarrow> vtkPoints \<Rightarrow> bool" where
  "seamClosed dense joined =
     (CloseLoop dense = Some joined
      \<and> length joined = length dense
      \<and> joined ! 0 = midpointOf (dense ! 0) (dense ! 1)
      \<and> joined ! (length joined - 1) = midpointOf (dense ! 0) (dense ! 1)
      \<and> hd joined = last joined)"

subsection \<open>Collaborators for the worked examples\<close>

text \<open>
  A stand-in for the library in the examples: the tube filter turns the line cells into
  polygons, the sphere source returns its centre, a spline returns the value of its last
  point at or before the parameter, and the solver returns the line from the first sample
  to the last.  No example below reaches the NaN, so any number can stand for it.
\<close>

definition exampleVtk :: vtk where
  "exampleVtk =
     \<lparr>vtkTubeFilter = (\<lambda>input radius sides. input\<lparr>Lines := [], Polys := Lines input\<rparr>),
      vtkSphereSource = (\<lambda>radius theta phi center. Initialize\<lparr>Points := [center]\<rparr>),
      CardinalEvaluate =
        (\<lambda>spline t. last (0 # map snd (filter (\<lambda>(u, y). u \<le> t) (cs_Points spline)))),
      KochanekEvaluate =
        (\<lambda>spline t. last (0 # map snd (filter (\<lambda>(u, y). u \<le> t) (ks_Points spline)))),
      SolveLeastSquares =
        (\<lambda>numberOfSamples xt xOrder yt yOrder c d.
           if c = 0 then hd yt ! d else if c = 1 then last yt ! d - hd yt ! d else 0),
      uninitialized = (\<lambda>i. (0, 0, 0)),
      VTK_DOUBLE_MAX = 10 ^ 299,
      quietNaN = 0\<rparr>"

section \<open>Properties\<close>

lemma int32_id: "INT_MIN \<le> x \<Longrightarrow> x \<le> INT_MAX \<Longrightarrow> int32 x = x"
  by (simp add: int32_def INT_MIN_def INT_MAX_def)

lemma int32_nonneg: "0 \<le> x \<Longrightarrow> x \<le> INT_MAX \<Longrightarrow> int32 x = x"
  by (rule int32_id) (simp_all add: INT_MIN_def)

lemma RemoveAllTuples_Nil: "RemoveAllTuples a = []"
proof (induction a rule: RemoveAllTuples.induct)
  case (1 a)
  show ?case
  proof (cases "length a \<noteq> 0")
    case True
    then show ?thesis using "1" by (subst RemoveAllTuples.simps) simp
  next
    case False
    then show ?thesis by (subst RemoveAllTuples.simps) simp
  qed
qed

lemma fold_InsertNextTuple1:
  "fold (\<lambda>v. InsertNextTuple1 (f v)) vs a = a @ map f vs"
  by (induction vs arbitrary: a) (simp_all add: InsertNextTuple1_def)

lemma ComputePointParametersFromIndices_value:
  assumes "2 \<le> length pts"
  shows "ComputePointParametersFromIndices (Some pts) (Some old) =
           (Some (map (\<lambda>v. real v / real (length pts - 1)) [0..<length pts]),
            if old = [] then [] else [AlreadyHasContents])"
proof -
  have "real_of_int (int (length pts) - 1) = real (length pts - 1)"
    using assms by (simp add: of_nat_diff)
  then show ?thesis
    using assms
    by (simp add: ComputePointParametersFromIndices_def Let_def fold_InsertNextTuple1
        RemoveAllTuples_Nil)
qed

subsection \<open>Parameters from indices\<close>

text \<open>
  C5: index-based parameterization of \<open>N\<close> points needs \<open>N \<ge> 2\<close>: with fewer points it warns
  that there are not enough points and leaves the array as it was.  With \<open>N \<ge> 2\<close> it
  assigns \<open>i / (N - 1)\<close> to point \<open>i\<close>, so the first parameter is 0, the last is 1, and the
  parameters increase strictly.
\<close>

theorem parameters_from_indices:
  "(length pts < 2 \<longrightarrow>
      ComputePointParametersFromIndices (Some pts) (Some old)
        = (Some old, [NotEnoughPoints (int (length pts))]))
   \<and> (2 \<le> length pts \<longrightarrow>
        (\<exists>ps ws. ComputePointParametersFromIndices (Some pts) (Some old) = (Some ps, ws)
           \<and> length ps = length pts
           \<and> (\<forall>i<length pts. ps ! i = real i / real (length pts - 1))
           \<and> ps ! 0 = 0 \<and> ps ! (length pts - 1) = 1
           \<and> (\<forall>i j. i < j \<and> j < length pts \<longrightarrow> ps ! i < ps ! j)))"
proof (intro conjI impI)
  assume "length pts < 2"
  then show "ComputePointParametersFromIndices (Some pts) (Some old)
        = (Some old, [NotEnoughPoints (int (length pts))])"
    by (simp add: ComputePointParametersFromIndices_def)
next
  assume n: "2 \<le> length pts"
  let ?ps = "map (\<lambda>v. real v / real (length pts - 1)) [0..<length pts]"
  have pos: "0 < real (length pts - 1)" using n by simp
  have mono: "\<forall>i j. i < j \<and> j < length pts \<longrightarrow> ?ps ! i < ?ps ! j"
    using pos by (simp add: divide_strict_right_mono)
  have "length pts - 1 < length pts" using n by simp
  then have "?ps ! (length pts - 1) = 1" using pos by (simp del: of_nat_diff)
  moreover have "pts \<noteq> []" using n by auto
  then have "?ps ! 0 = 0" by simp
  moreover have "\<forall>i<length pts. ?ps ! i = real i / real (length pts - 1)" by simp
  moreover note calculation = this calculation
  ultimately show "\<exists>ps ws. ComputePointParametersFromIndices (Some pts) (Some old) = (Some ps, ws)
           \<and> length ps = length pts
           \<and> (\<forall>i<length pts. ps ! i = real i / real (length pts - 1))
           \<and> ps ! 0 = 0 \<and> ps ! (length pts - 1) = 1
           \<and> (\<forall>i j. i < j \<and> j < length pts \<longrightarrow> ps ! i < ps ! j)"
    using ComputePointParametersFromIndices_value [OF n, of old] mono
    by (intro exI [of _ ?ps] exI [of _ "if old = [] then [] else [AlreadyHasContents]"])
       (simp only: length_map length_upt, simp)
qed

theorem parameters_from_indices_witness:
  "ComputePointParametersFromIndices (Some [(5, 5, 5)]) (Some [7]) = (Some [7], [NotEnoughPoints 1])
   \<and> (\<exists>ps ws. ComputePointParametersFromIndices (Some [(0, 0, 0), (4, 0, 0), (5, 0, 0)]) (Some [7])
                 = (Some ps, ws)
         \<and> length ps = 3 \<and> ps ! 0 = 0 \<and> ps ! 2 = 1 \<and> ps ! 0 < ps ! 2)"
proof -
  have "length [(5, 5, 5) :: point] < 2" by simp
  then have a: "ComputePointParametersFromIndices (Some [(5, 5, 5)]) (Some [7])
             = (Some [7], [NotEnoughPoints 1])"
    using parameters_from_indices [of "[(5, 5, 5)]" "[7]"] by simp
  have "2 \<le> length [(0, 0, 0), (4, 0, 0), (5, 0, 0) :: point]" by simp
  then obtain ps ws where
    b: "ComputePointParametersFromIndices (Some [(0, 0, 0), (4, 0, 0), (5, 0, 0)]) (Some [7])
          = (Some ps, ws)
        \<and> length ps = length [(0, 0, 0), (4, 0, 0), (5, 0, 0) :: point]
        \<and> (\<forall>i<length [(0, 0, 0), (4, 0, 0), (5, 0, 0) :: point].
              ps ! i = real i / real (length [(0, 0, 0), (4, 0, 0), (5, 0, 0) :: point] - 1))
        \<and> ps ! 0 = 0 \<and> ps ! (length [(0, 0, 0), (4, 0, 0), (5, 0, 0) :: point] - 1) = 1
        \<and> (\<forall>i j. i < j \<and> j < length [(0, 0, 0), (4, 0, 0), (5, 0, 0) :: point]
               \<longrightarrow> ps ! i < ps ! j)"
    using parameters_from_indices [of "[(0, 0, 0), (4, 0, 0), (5, 0, 0)]" "[7]"] by blast
  then have c: "length ps = 3" "ps ! 0 = 0" "ps ! 2 = 1" by (simp_all add: numeral_2_eq_2)
  then have "ps ! 0 < ps ! 2" by simp
  then show ?thesis using a b c by blast
qed

subsection \<open>Degenerate point counts\<close>

text \<open>
  C7: with no point, each of the four generators returns without a warning and leaves the
  output as it was; with one point \<open>p\<close>, each returns the mesh of the sphere source with
  centre \<open>p\<close>, the tube radius as radius and the number of sides as both resolutions.
\<close>

theorem degenerate_point_counts:
  "GeneratePiecewiseLinearCurveModel env (Some []) (Some out) radius sides seg loop
     = Some (Some out, [])
   \<and> GenerateCardinalSplineCurveModel env (Some []) (Some out) radius sides seg loop
     = Some (Some out, [])
   \<and> GenerateKochanekSplineCurveModel env (Some []) (Some out) radius sides seg loop
       bias continuity tension ends
     = Some (Some out, [])
   \<and> GeneratePolynomialCurveModel env (Some []) (Some out) other radius sides seg loop
       order params
     = Some (Some out, other, [])
   \<and> GeneratePiecewiseLinearCurveModel env (Some [p]) (Some out) radius sides seg loop
     = Some (Some (vtkSphereSource env radius sides sides p), [])
   \<and> GenerateCardinalSplineCurveModel env (Some [p]) (Some out) radius sides seg loop
     = Some (Some (vtkSphereSource env radius sides sides p), [])
   \<and> GenerateKochanekSplineCurveModel env (Some [p]) (Some out) radius sides seg loop
       bias continuity tension ends
     = Some (Some (vtkSphereSource env radius sides sides p), [])
   \<and> GeneratePolynomialCurveModel env (Some [p]) (Some out) other radius sides seg loop
       order params
     = Some (Some (vtkSphereSource env radius sides sides p), other, [])"
  by (simp add: GeneratePiecewiseLinearCurveModel_def GenerateCardinalSplineCurveModel_def
      GenerateKochanekSplineCurveModel_def GeneratePolynomialCurveModel_def
      GenerateSphereModel_def GetPoint_def)

lemmas linear_eval = GeneratePiecewiseLinearCurveModel_def PiecewiseLinearSamples_def
  AllocateCurvePoints_def SetNumberOfPoints_def numberSegmentsToInterpolate_def
  linearSegments.simps GetPoint_def SetPoint_def linearCurvePoint_def finalControlPoint_def
  closeIfLoop_def CloseLoop_def GetTubePolyDataFromPoints_def linePolyData_def
  InsertNextCell_def InsertCellPoint_def Initialize_def Let_def upt_conv_Cons
  int32_def INT_MIN_def

text \<open>
  C3: on exactly two control points, the cardinal, the Kochanek and the polynomial generator
  return what the piecewise linear generator returns on the same arguments (the polynomial
  generator leaves the object \<^verbatim>\<open>outputTube\<close> as it was).
\<close>

theorem two_points_are_linear:
  assumes "length cps = 2"
  shows "GenerateCardinalSplineCurveModel env (Some cps) tube radius sides seg loop
           = GeneratePiecewiseLinearCurveModel env (Some cps) tube radius sides seg loop
         \<and> GenerateKochanekSplineCurveModel env (Some cps) tube radius sides seg loop
             bias continuity tension ends
           = GeneratePiecewiseLinearCurveModel env (Some cps) tube radius sides seg loop
         \<and> GeneratePolynomialCurveModel env (Some cps) tube other radius sides seg loop
             order params
           = map_option (\<lambda>(made, ws). (made, other, ws))
               (GeneratePiecewiseLinearCurveModel env (Some cps) tube radius sides seg loop)"
proof (cases tube)
  case None
  then show ?thesis
    by (simp add: GeneratePiecewiseLinearCurveModel_def GenerateCardinalSplineCurveModel_def
        GenerateKochanekSplineCurveModel_def GeneratePolynomialCurveModel_def)
next
  case (Some out)
  then show ?thesis
    using assms
    by (simp add: GenerateCardinalSplineCurveModel_def
        GenerateKochanekSplineCurveModel_def GeneratePolynomialCurveModel_def
        split: option.split)
qed

theorem two_points_are_linear_witness:
  "length [(0, 0, 0), (2, 0, 0) :: point] = 2
   \<and> GenerateCardinalSplineCurveModel exampleVtk (Some [(0, 0, 0), (2, 0, 0)]) (Some Initialize)
         0 8 2 True
       = Some (Some \<lparr>Points = [(1 / 2, 0, 0), (1, 0, 0), (2, 0, 0), (1, 0, 0), (0, 0, 0),
                                (1 / 2, 0, 0)],
                      Verts = [], Lines = [(6, [0, 1, 2, 3, 4, 5])], Polys = [], Strips = []\<rparr>,
               [])
   \<and> GenerateKochanekSplineCurveModel exampleVtk (Some [(0, 0, 0), (2, 0, 0)]) (Some Initialize)
         0 8 2 False 0 0 0 False
       = Some (Some \<lparr>Points = [(0, 0, 0), (1, 0, 0), (2, 0, 0)],
                      Verts = [], Lines = [(3, [0, 1, 2])], Polys = [], Strips = []\<rparr>,
               [])
   \<and> GeneratePolynomialCurveModel exampleVtk (Some [(0, 0, 0), (2, 0, 0)]) (Some Initialize)
         None 0 8 2 False 3 None
       = Some (Some \<lparr>Points = [(0, 0, 0), (1, 0, 0), (2, 0, 0)],
                      Verts = [], Lines = [(3, [0, 1, 2])], Polys = [], Strips = []\<rparr>,
               None, [])"
proof -
  have two: "length [(0, 0, 0), (2, 0, 0) :: point] = 2" by simp
  have open_curve:
    "GeneratePiecewiseLinearCurveModel exampleVtk (Some [(0, 0, 0), (2, 0, 0)])
       (Some Initialize) 0 8 2 False
     = Some (Some \<lparr>Points = [(0, 0, 0), (1, 0, 0), (2, 0, 0)],
                    Verts = [], Lines = [(3, [0, 1, 2])], Polys = [], Strips = []\<rparr>,
             [])"
    by (simp add: linear_eval)
  have closed_curve:
    "GeneratePiecewiseLinearCurveModel exampleVtk (Some [(0, 0, 0), (2, 0, 0)])
       (Some Initialize) 0 8 2 True
     = Some (Some \<lparr>Points = [(1 / 2, 0, 0), (1, 0, 0), (2, 0, 0), (1, 0, 0), (0, 0, 0),
                              (1 / 2, 0, 0)],
                    Verts = [], Lines = [(6, [0, 1, 2, 3, 4, 5])], Polys = [], Strips = []\<rparr>,
             [])"
    by (simp add: linear_eval)
  show ?thesis
    using two_points_are_linear [OF two, of exampleVtk "Some Initialize" 0 8 2 True]
      two_points_are_linear [OF two, of exampleVtk "Some Initialize" 0 8 2 False 0 0 0 False
        None 3 None]
    by (simp add: open_curve closed_curve)
qed

subsection \<open>The polynomial generator\<close>

lemmas poly_eval = GeneratePolynomialCurveModel_def ComputePointParametersFromIndices_def
  clampPolynomialOrder_def maximumPolynomialOrder_def PolynomialSamples_def
  numPolynomialCoefficients_def coefficientMatrix_def independentMatrix_def dependentMatrix_def
  polynomialPoint_def InsertNextTuple1_def InsertNextCell_def InsertCellPoint_def
  Initialize_def exampleVtk_def Let_def upt_conv_Cons int32_def INT_MIN_def

lemma numPolynomialCoefficients_bounds:
  assumes "0 \<le> order" "order \<le> 6" "1 \<le> numPoints"
  shows "1 \<le> numPolynomialCoefficients order numPoints params"
    and "numPolynomialCoefficients order numPoints params \<le> 7"
proof -
  have "[0..<nat numPoints] \<noteq> []" using assms(3) by simp
  then have "remdups (map (\<lambda>i. params ! i) [0..<nat numPoints]) \<noteq> []" by simp
  then have "1 \<le> int (length (remdups (map (\<lambda>i. params ! i) [0..<nat numPoints])))"
    by (cases "remdups (map (\<lambda>i. params ! i) [0..<nat numPoints])") simp_all
  then show "1 \<le> numPolynomialCoefficients order numPoints params"
    and "numPolynomialCoefficients order numPoints params \<le> 7"
    using assms(1,2) by (simp_all add: numPolynomialCoefficients_def Let_def)
qed

text \<open>
  C4, as the source has it: an order above 6 is lowered to 6 with a warning, and on at
  least three points with usable parameters the run is the run with order 6 plus that
  warning; an order of at most 6 is used as it is.  So an order that is not negative gives
  an order between 0 and 6 and a fit with 1 to 7 coefficients; nothing raises a negative
  order.
\<close>

theorem polynomial_order_clamped:
  "(6 < order \<longrightarrow>
      clampPolynomialOrder order = (6, [UnsupportedPolynomialOrder order 6])
      \<and> (3 \<le> length pts \<and> (params = None \<or> params = Some given \<and> length given = length pts) \<longrightarrow>
           GeneratePolynomialCurveModel env (Some pts) (Some out) other radius sides seg loop
             order params
           = map_option (\<lambda>(made, line, ws). (made, line, ws @ [UnsupportedPolynomialOrder order 6]))
               (GeneratePolynomialCurveModel env (Some pts) (Some out) other radius sides seg loop
                  6 params)))
   \<and> (order \<le> 6 \<longrightarrow> clampPolynomialOrder order = (order, []))
   \<and> (0 \<le> order \<longrightarrow>
        0 \<le> fst (clampPolynomialOrder order) \<and> fst (clampPolynomialOrder order) \<le> 6
        \<and> (1 \<le> numPoints \<longrightarrow>
             1 \<le> numPolynomialCoefficients (fst (clampPolynomialOrder order)) numPoints given
             \<and> numPolynomialCoefficients (fst (clampPolynomialOrder order)) numPoints given
                 \<le> 7))"
proof (intro conjI impI)
  assume "6 < order"
  then show "clampPolynomialOrder order = (6, [UnsupportedPolynomialOrder order 6])"
    by (simp add: clampPolynomialOrder_def maximumPolynomialOrder_def)
next
  assume big: "6 < order"
    and ok: "3 \<le> length pts \<and> (params = None \<or> params = Some given \<and> length given = length pts)"
  have c: "clampPolynomialOrder order = (6, [UnsupportedPolynomialOrder order 6])"
    "clampPolynomialOrder 6 = (6, [])"
    using big by (simp_all add: clampPolynomialOrder_def maximumPolynomialOrder_def)
  from ok have ne: "pts \<noteq> []" by auto
  from ok have "params = None \<or> params = Some given \<and> length given = length pts" by simp
  then show "GeneratePolynomialCurveModel env (Some pts) (Some out) other radius sides seg loop
             order params
           = map_option (\<lambda>(made, line, ws). (made, line, ws @ [UnsupportedPolynomialOrder order 6]))
               (GeneratePolynomialCurveModel env (Some pts) (Some out) other radius sides seg loop
                  6 params)"
  proof
    assume "params = None"
    then show ?thesis
      using ok ne c ComputePointParametersFromIndices_value [of pts "[]"]
      by (simp add: GeneratePolynomialCurveModel_def Let_def split: option.split)
  next
    assume "params = Some given \<and> length given = length pts"
    then show ?thesis
      using ok ne c
      by (simp add: GeneratePolynomialCurveModel_def Let_def split: option.split)
  qed
next
  assume "order \<le> 6"
  then show "clampPolynomialOrder order = (order, [])"
    by (simp add: clampPolynomialOrder_def maximumPolynomialOrder_def)
next
  assume "0 \<le> order"
  then show "0 \<le> fst (clampPolynomialOrder order)"
    by (simp add: clampPolynomialOrder_def maximumPolynomialOrder_def)
next
  show "fst (clampPolynomialOrder order) \<le> 6"
    by (simp add: clampPolynomialOrder_def maximumPolynomialOrder_def)
next
  assume h: "0 \<le> order" "1 \<le> numPoints"
  then have o: "0 \<le> fst (clampPolynomialOrder order)" "fst (clampPolynomialOrder order) \<le> 6"
    by (simp_all add: clampPolynomialOrder_def maximumPolynomialOrder_def)
  show "1 \<le> numPolynomialCoefficients (fst (clampPolynomialOrder order)) numPoints given"
    by (rule numPolynomialCoefficients_bounds(1) [OF o h(2)])
  show "numPolynomialCoefficients (fst (clampPolynomialOrder order)) numPoints given \<le> 7"
    by (rule numPolynomialCoefficients_bounds(2) [OF o h(2)])
qed

theorem polynomial_order_clamped_witness:
  "(6 :: int) < 10
   \<and> clampPolynomialOrder 10 = (6, [UnsupportedPolynomialOrder 10 6])
   \<and> GeneratePolynomialCurveModel exampleVtk (Some [(0, 0, 0), (1, 0, 0), (2, 0, 0)])
         (Some Initialize) (Some Initialize) 1 8 1 False 10 None
       = Some (Some \<lparr>Points = [(0, 0, 0), (1, 0, 0), (2, 0, 0)], Verts = [], Lines = [],
                      Polys = [(3, [0, 1, 2])], Strips = []\<rparr>,
               Some Initialize, [UnsupportedPolynomialOrder 10 6])
   \<and> clampPolynomialOrder 3 = (3, [])
   \<and> 0 \<le> fst (clampPolynomialOrder 3) \<and> fst (clampPolynomialOrder 3) \<le> 6
   \<and> 1 \<le> numPolynomialCoefficients (fst (clampPolynomialOrder 3)) 3 [0, 1 / 2, 1]
   \<and> numPolynomialCoefficients (fst (clampPolynomialOrder 3)) 3 [0, 1 / 2, 1] \<le> 7"
proof -
  have six:
    "GeneratePolynomialCurveModel exampleVtk (Some [(0, 0, 0), (1, 0, 0), (2, 0, 0)])
         (Some Initialize) (Some Initialize) 1 8 1 False 6 None
       = Some (Some \<lparr>Points = [(0, 0, 0), (1, 0, 0), (2, 0, 0)], Verts = [], Lines = [],
                      Polys = [(3, [0, 1, 2])], Strips = []\<rparr>,
               Some Initialize, [])"
    by (simp add: poly_eval)
  have three: "3 \<le> length [(0, 0, 0), (1, 0, 0), (2, 0, 0) :: point]" by simp
  note above = polynomial_order_clamped [of 10 "[(0, 0, 0), (1, 0, 0), (2, 0, 0)]" None "[]"
      exampleVtk Initialize "Some Initialize" 1 8 1 False 3]
  note below = polynomial_order_clamped [of 3 "[(0, 0, 0), (1, 0, 0), (2, 0, 0)]" None
      "[0, 1 / 2, 1]" exampleVtk Initialize "Some Initialize" 1 8 1 False 3]
  have a: "clampPolynomialOrder 10 = (6, [UnsupportedPolynomialOrder 10 6])"
    using above by simp
  have b: "GeneratePolynomialCurveModel exampleVtk (Some [(0, 0, 0), (1, 0, 0), (2, 0, 0)])
         (Some Initialize) (Some Initialize) 1 8 1 False 10 None
       = Some (Some \<lparr>Points = [(0, 0, 0), (1, 0, 0), (2, 0, 0)], Verts = [], Lines = [],
                      Polys = [(3, [0, 1, 2])], Strips = []\<rparr>,
               Some Initialize, [UnsupportedPolynomialOrder 10 6])"
    using above three by (simp add: six)
  have c: "clampPolynomialOrder 3 = (3, [])"
    and d: "0 \<le> fst (clampPolynomialOrder 3)" "fst (clampPolynomialOrder 3) \<le> 6"
      "1 \<le> numPolynomialCoefficients (fst (clampPolynomialOrder 3)) 3 [0, 1 / 2, 1]"
      "numPolynomialCoefficients (fst (clampPolynomialOrder 3)) 3 [0, 1 / 2, 1] \<le> 7"
    using below by auto
  have "(6 :: int) < 10" by simp
  then show ?thesis
    using a b c d by blast
qed

text \<open>
  C4 as stated fails for a negative order: it is used as it is.  With order \<open>-2\<close> the number
  of coefficients is \<open>-1\<close>, and the first vector of the fit would have a negative size.
\<close>

theorem polynomial_order_negative:
  "fst (clampPolynomialOrder (- 2)) = - 2
   \<and> \<not> (0 \<le> fst (clampPolynomialOrder (- 2)) \<and> fst (clampPolynomialOrder (- 2)) \<le> 6)
   \<and> numPolynomialCoefficients (fst (clampPolynomialOrder (- 2))) 3 [0, 1 / 2, 1] = - 1
   \<and> GeneratePolynomialCurveModel exampleVtk (Some [(0, 0, 0), (1, 0, 0), (2, 0, 0)])
         (Some Initialize) (Some Initialize) 1 8 5 False (- 2) None = None"
  by (simp add: clampPolynomialOrder_def maximumPolynomialOrder_def
      GeneratePolynomialCurveModel_def ComputePointParametersFromIndices_def
      PolynomialSamples_def numPolynomialCoefficients_def Let_def)




lemma GetTubePolyDataFromPoints_radius_zero:
  "radius \<le> 0 \<Longrightarrow>
     GetTubePolyDataFromPoints env (Some pts) (Some out) radius sides
       = (Some (linePolyData pts), [])"
  by (simp add: GetTubePolyDataFromPoints_def)

lemma polynomial_radius_zero_leaves_output:
  assumes "3 \<le> length pts" "radius \<le> 0"
    and "GeneratePolynomialCurveModel env (Some pts) (Some out) other radius sides seg loop
           order params = Some (made, line, ws)"
  shows "made = Some out"
proof -
  have "pts \<noteq> []" using assms(1) by auto
  then show ?thesis
    using assms
    by (auto simp: GeneratePolynomialCurveModel_def Let_def
        split: option.splits prod.splits if_splits)
qed

text \<open>
  C2 holds for \<^verbatim>\<open>GetTubePolyDataFromPoints\<close> (the lemma \<open>GetTubePolyDataFromPoints_radius_zero\<close>), but
  not for the polynomial generator: with radius 0 the line mesh goes to the object
  \<^verbatim>\<open>outputTube\<close>, and \<^verbatim>\<open>outputTubePolyData\<close> stays as it was, here empty.
\<close>

theorem polynomial_radius_zero_example:
  "GeneratePolynomialCurveModel exampleVtk (Some [(0, 0, 0), (1, 0, 0), (2, 0, 0)])
     (Some Initialize) (Some Initialize) 0 8 1 False 3 None
   = Some (Some Initialize, Some (linePolyData [(0, 0, 0), (1, 0, 0), (2, 0, 0)]), [])"
  by (simp add: poly_eval linePolyData_def)



text \<open>
  The two ends of that range, on three points with the parameters 0, \<open>1 / 2\<close> and 1.  With
  the order \<open>-1\<close> there is no coefficient, and the samples are \<open>(N - 1) * segments + 1\<close> times
  the origin.  With no segment between control points the curve is one point, and with
  two coefficients or more that point is the NaN.
\<close>

lemma polynomial_without_coefficients:
  "PolynomialSamples env [(0, 0, 0), (1, 0, 0), (2, 0, 0)] 2 (- 1) [0, 1 / 2, 1]
     = Some \<lparr>Points = [(0, 0, 0), (0, 0, 0), (0, 0, 0), (0, 0, 0), (0, 0, 0)], Verts = [],
             Lines = [(5, [0, 1, 2, 3, 4])], Polys = [], Strips = []\<rparr>"
  by (simp add: PolynomialSamples_def numPolynomialCoefficients_def polynomialPoint_def
      InsertNextCell_def InsertCellPoint_def Initialize_def Let_def upt_conv_Cons int32_def
      INT_MIN_def)

lemma polynomial_single_sample:
  "PolynomialSamples env [(0, 0, 0), (1, 0, 0), (2, 0, 0)] 0 3 [0, 1 / 2, 1]
     = Some \<lparr>Points = [(quietNaN env, quietNaN env, quietNaN env)], Verts = [],
             Lines = [(1, [0])], Polys = [], Strips = []\<rparr>"
  by (simp add: PolynomialSamples_def numPolynomialCoefficients_def polynomialPoint_def
      InsertNextCell_def InsertCellPoint_def Initialize_def Let_def upt_conv_Cons int32_def
      INT_MIN_def)




text \<open>
  C9: on at least three points, the polynomial generator without a parameter array returns
  what it returns with the array that \<^verbatim>\<open>ComputePointParametersFromIndices\<close> makes for the same
  points, whatever that array held before.
\<close>

theorem polynomial_null_parameters:
  assumes "3 \<le> length pts"
  shows "GeneratePolynomialCurveModel env (Some pts) tube other radius sides seg loop order None
           = GeneratePolynomialCurveModel env (Some pts) tube other radius sides seg loop order
               (fst (ComputePointParametersFromIndices (Some pts) (Some old)))"
proof -
  have "pts \<noteq> []" using assms by auto
  moreover have "2 \<le> length pts" using assms by simp
  note ComputePointParametersFromIndices_value [OF this]
  ultimately show ?thesis
    using assms by (simp add: GeneratePolynomialCurveModel_def Let_def split: option.split)
qed

theorem polynomial_null_parameters_witness:
  "3 \<le> length [(0, 0, 0), (1, 0, 0), (2, 0, 0) :: point]
   \<and> GeneratePolynomialCurveModel exampleVtk (Some [(0, 0, 0), (1, 0, 0), (2, 0, 0)])
         (Some Initialize) (Some Initialize) 1 8 2 False 3
         (fst (ComputePointParametersFromIndices (Some [(0, 0, 0), (1, 0, 0), (2, 0, 0)])
                 (Some [9])))
       = Some (Some \<lparr>Points = [(0, 0, 0), (1 / 2, 0, 0), (1, 0, 0), (3 / 2, 0, 0), (2, 0, 0)],
                      Verts = [], Lines = [], Polys = [(5, [0, 1, 2, 3, 4])], Strips = []\<rparr>,
               Some Initialize, [])"
proof -
  have three: "3 \<le> length [(0, 0, 0), (1, 0, 0), (2, 0, 0) :: point]" by simp
  have without:
    "GeneratePolynomialCurveModel exampleVtk (Some [(0, 0, 0), (1, 0, 0), (2, 0, 0)])
         (Some Initialize) (Some Initialize) 1 8 2 False 3 None
       = Some (Some \<lparr>Points = [(0, 0, 0), (1 / 2, 0, 0), (1, 0, 0), (3 / 2, 0, 0), (2, 0, 0)],
                      Verts = [], Lines = [], Polys = [(5, [0, 1, 2, 3, 4])], Strips = []\<rparr>,
               Some Initialize, [])"
    by (simp add: poly_eval)
  from polynomial_null_parameters [OF three, of exampleVtk "Some Initialize" "Some Initialize"
      1 8 2 False 3 "[9]"]
  show ?thesis
    using three without by simp
qed

subsection \<open>Closing the loop\<close>

lemma forEach_invariant:
  assumes "\<And>i s. i \<in> set xs \<Longrightarrow> P s \<Longrightarrow> \<exists>s'. body i s = Some s' \<and> P s'"
    and "P s"
  shows "\<exists>s'. forEach xs body s = Some s' \<and> P s'"
  using assms
proof (induction xs arbitrary: s)
  case Nil
  then show ?case by simp
next
  case (Cons x xs)
  from Cons.prems(1) [of x s] Cons.prems(2)
  obtain s1 where s1: "body x s = Some s1" "P s1" by auto
  have "\<exists>s'. forEach xs body s1 = Some s' \<and> P s'"
    by (rule Cons.IH) (use Cons.prems(1) s1 in auto)
  then show ?case using s1 by simp
qed

lemma SetPoint_length:
  "0 \<le> i \<Longrightarrow> i < int (length curve) \<Longrightarrow>
     \<exists>written. SetPoint curve i p = Some written \<and> length written = length curve"
  by (simp add: SetPoint_def)

lemma segment_written:
  assumes "0 \<le> base" "base + int n \<le> int len" "length curve = len" "int len \<le> INT_MAX"
  shows "\<exists>written. forEach [0..<n] (\<lambda>i c. SetPoint c (int32 (base + int i)) (f i)) curve
                     = Some written
           \<and> length written = len"
proof (rule forEach_invariant [where P = "\<lambda>c. length c = len"])
  fix i and s :: vtkPoints
  assume i: "i \<in> set [0..<n]" and s: "length s = len"
  have "int32 (base + int i) = base + int i"
    using i assms by (intro int32_nonneg) auto
  then show "\<exists>s'. SetPoint s (int32 (base + int i)) (f i) = Some s' \<and> length s' = len"
    using i s assms SetPoint_length [of "base + int i" s "f i"] by auto
qed (rule assms)

lemma linearSegments_written:
  "0 \<le> seg \<Longrightarrow> n \<le> int (length cps) \<Longrightarrow> n * seg \<le> int len \<Longrightarrow>
   0 \<le> i \<Longrightarrow> 0 \<le> nxt \<Longrightarrow> length curve = len \<Longrightarrow> cps \<noteq> [] \<Longrightarrow> int len \<le> INT_MAX \<Longrightarrow>
     \<exists>written. linearSegments cps seg n i nxt curve = Some (max i n, written)
       \<and> length written = len"
proof (induction cps seg n i nxt curve rule: linearSegments.induct)
  case (1 cps seg n i nxt curve)
  show ?case
  proof (cases "i < n")
    case False
    then show ?thesis using "1.prems" by (subst linearSegments.simps) simp
  next
    case True
    let ?nxt = "if nxt \<ge> int (length cps) then 0 else nxt"
    obtain cur where cur: "GetPoint cps i = Some cur"
      using True "1.prems" by (simp add: GetPoint_def)
    obtain nx where nx: "GetPoint cps ?nxt = Some nx"
      using "1.prems" by (cases "int (length cps) \<le> nxt") (auto simp: GetPoint_def)
    have "(i + 1) * seg \<le> n * seg"
      using True "1.prems"(1) by (intro mult_right_mono) simp_all
    then have fits: "i * seg + int (nat seg) \<le> int len"
      using "1.prems" by (simp add: algebra_simps)
    have "0 \<le> i * seg" using "1.prems" by simp
    from segment_written [OF this fits "1.prems"(6) "1.prems"(8),
        where f = "\<lambda>k. linearCurvePoint cur nx (real k / real_of_int seg)"]
    obtain written where w:
      "forEach [0..<nat seg]
         (\<lambda>k c. SetPoint c (int32 (i * seg + int k))
                  (linearCurvePoint cur nx (real k / real_of_int seg)))
         curve = Some written"
      "length written = len"
      by blast
    have "\<exists>w2. linearSegments cps seg n (i + 1) (?nxt + 1) written = Some (max (i + 1) n, w2)
            \<and> length w2 = len"
      using "1.IH" [OF True cur nx w(1)] "1.prems" w(2) by simp
    then show ?thesis
      using True cur nx w by (subst linearSegments.simps) (simp add: max_def)
  qed
qed

lemma splineSegments_written:
  "0 \<le> seg \<Longrightarrow> n * seg \<le> int len \<Longrightarrow> 0 \<le> i \<Longrightarrow> length curve = len \<Longrightarrow>
   int len \<le> INT_MAX \<Longrightarrow>
     \<exists>written. splineSegments evaluate seg n i nxt curve = Some (max i n, written)
       \<and> length written = len"
proof (induction evaluate seg n i nxt curve rule: splineSegments.induct)
  case (1 evaluate seg n i nxt curve)
  show ?case
  proof (cases "i < n")
    case False
    then show ?thesis using "1.prems" by (subst splineSegments.simps) simp
  next
    case True
    have "(i + 1) * seg \<le> n * seg"
      using True "1.prems"(1) by (intro mult_right_mono) simp_all
    then have fits: "i * seg + int (nat seg) \<le> int len"
      using "1.prems" by (simp add: algebra_simps)
    have "0 \<le> i * seg" using "1.prems" by simp
    from segment_written [OF this fits "1.prems"(4) "1.prems"(5),
        where f = "\<lambda>k. evaluate (real_of_int i + real k / real_of_int seg)"]
    obtain written where w:
      "forEach [0..<nat seg]
         (\<lambda>k c. SetPoint c (int32 (i * seg + int k))
                  (evaluate (real_of_int i + real k / real_of_int seg)))
         curve = Some written"
      "length written = len"
      by blast
    have "\<exists>w2. splineSegments evaluate seg n (i + 1) (nxt + 1) written
                 = Some (max (i + 1) n, w2)
            \<and> length w2 = len"
      using "1.IH" [OF True w(1)] "1.prems" w(2) by simp
    then show ?thesis
      using True w by (subst splineSegments.simps) (simp add: max_def)
  qed
qed

lemma AllocateCurvePoints_loop:
  assumes "0 \<le> seg" "int (length cps) * seg + 2 \<le> INT_MAX"
  shows "\<exists>curve. AllocateCurvePoints env cps seg True = Some curve
           \<and> int (length curve) = int (length cps) * seg + 2"
proof -
  have "0 \<le> int (length cps) * seg" using assms(1) by simp
  then have "0 \<le> int (length cps) * seg + 2" by simp
  from int32_nonneg [OF this assms(2)] this show ?thesis
    by (simp add: AllocateCurvePoints_def SetNumberOfPoints_def Let_def)
qed

lemma finalControlPoint_loop:
  assumes "cps \<noteq> []" "0 \<le> seg" "int (length curve) = int (length cps) * seg + 2"
    and "int (length cps) * seg + 2 \<le> INT_MAX"
  shows "\<exists>dense. finalControlPoint cps seg True (int (length cps)) curve = Some dense
           \<and> length dense = length curve"
proof -
  have g: "GetPoint cps 0 = Some (cps ! 0)" using assms(1) by (simp add: GetPoint_def)
  have nonneg: "0 \<le> seg * int (length cps)" using assms(2) by simp
  have below: "seg * int (length cps) < int (length curve)"
    using assms(3) by (simp add: mult.commute)
  have "seg * int (length cps) \<le> INT_MAX"
    using assms(4) by (simp add: mult.commute)
  from int32_nonneg [OF nonneg this] g nonneg below show ?thesis
    by (simp add: finalControlPoint_def numberSegmentsToInterpolate_def SetPoint_def)
qed

lemma PiecewiseLinearSamples_loop:
  assumes "cps \<noteq> []" "0 \<le> seg" "int (length cps) * seg + 2 \<le> INT_MAX"
  shows "\<exists>dense. PiecewiseLinearSamples env cps seg True = Some dense
           \<and> int (length dense) = int (length cps) * seg + 2"
proof -
  from AllocateCurvePoints_loop [OF assms(2,3), of env]
  obtain curve where c: "AllocateCurvePoints env cps seg True = Some curve"
    "int (length curve) = int (length cps) * seg + 2" by blast
  have fits: "int (length cps) * seg \<le> int (length curve)" using c(2) by simp
  have small: "int (length curve) \<le> INT_MAX" using c(2) assms(3) by simp
  from linearSegments_written [OF assms(2) order_refl fits _ _ refl assms(1) small, of 0 1]
  obtain written where w:
    "linearSegments cps seg (int (length cps)) 0 1 curve = Some (int (length cps), written)"
    "length written = length curve"
    by (auto simp: max_def)
  from finalControlPoint_loop [OF assms(1,2) _ assms(3), of written] c(2) w(2)
  obtain dense where d: "finalControlPoint cps seg True (int (length cps)) written = Some dense"
    "length dense = length written" by auto
  show ?thesis
    using c w d by (simp add: PiecewiseLinearSamples_def numberSegmentsToInterpolate_def)
qed

lemma SplineSamples_loop:
  assumes "cps \<noteq> []" "0 \<le> seg" "int (length cps) * seg + 2 \<le> INT_MAX"
  shows "\<exists>dense. SplineSamples env evaluate cps seg True = Some dense
           \<and> int (length dense) = int (length cps) * seg + 2"
proof -
  from AllocateCurvePoints_loop [OF assms(2,3), of env]
  obtain curve where c: "AllocateCurvePoints env cps seg True = Some curve"
    "int (length curve) = int (length cps) * seg + 2" by blast
  have fits: "int (length cps) * seg \<le> int (length curve)" using c(2) by simp
  have small: "int (length curve) \<le> INT_MAX" using c(2) assms(3) by simp
  from splineSegments_written [OF assms(2) fits _ refl small, of 0 evaluate 1]
  obtain written where w:
    "splineSegments evaluate seg (int (length cps)) 0 1 curve = Some (int (length cps), written)"
    "length written = length curve"
    by (auto simp: max_def)
  from finalControlPoint_loop [OF assms(1,2) _ assms(3), of written] c(2) w(2)
  obtain dense where d: "finalControlPoint cps seg True (int (length cps)) written = Some dense"
    "length dense = length written" by auto
  show ?thesis
    using c w d by (simp add: SplineSamples_def numberSegmentsToInterpolate_def)
qed

lemma CloseLoop_seamClosed:
  assumes "2 \<le> length dense"
  shows "\<exists>joined. seamClosed dense joined"
proof -
  obtain x0 y0 z0 where p0: "dense ! 0 = (x0, y0, z0)" by (cases "dense ! 0") auto
  obtain x1 y1 z1 where p1: "dense ! 1 = (x1, y1, z1)" by (cases "dense ! 1") auto
  let ?m = "midpointOf (dense ! 0) (dense ! 1)"
  let ?joined = "dense[0 := ?m, length dense - 1 := ?m]"
  have ne: "dense \<noteq> []" "0 < length dense" "length dense - 1 < length dense"
    "length dense - 1 \<noteq> 0" "(1 :: int) < int (length dense)"
    using assms by auto
  have g: "GetPoint dense 0 = Some (x0, y0, z0)" "GetPoint dense 1 = Some (x1, y1, z1)"
    using ne p0 p1 by (simp_all add: GetPoint_def)
  have m: "?m = (x0 * 0.5 + x1 * 0.5, y0 * 0.5 + y1 * 0.5, z0 * 0.5 + z1 * 0.5)"
    using p0 p1 by (simp add: midpointOf_def)
  have "nat (int (length dense) - 1) = length dense - 1" by simp
  then have cl: "CloseLoop dense = Some ?joined"
    using g ne assms unfolding m
    by (simp add: CloseLoop_def SetPoint_def Let_def)
  have "?joined ! 0 = ?m" using ne by simp
  moreover have l: "?joined ! (length ?joined - 1) = ?m" using ne by simp
  moreover have "hd ?joined = ?joined ! 0" using ne by (simp add: hd_conv_nth)
  moreover have "last ?joined = ?joined ! (length ?joined - 1)"
    using ne by (simp add: last_conv_nth)
  ultimately have "seamClosed dense ?joined"
    using cl unfolding seamClosed_def by simp
  then show ?thesis ..
qed

lemma SetKochanekSplineParameters_Some:
  assumes "2 \<le> length cps"
  shows "\<exists>splines. SetKochanekSplineParameters cps sx sy sz loop bias continuity tension ends
                     = Some splines"
proof -
  have r: "0 < int (length cps)" "1 < int (length cps)" "0 \<le> int (length cps) - 2"
    "int (length cps) - 2 < int (length cps)" "0 \<le> int (length cps) - 1"
    using assms by auto
  have "GetPoint cps 0 = Some (cps ! 0)" "GetPoint cps 1 = Some (cps ! 1)"
    "GetPoint cps (int (length cps) - 2) = Some (cps ! nat (int (length cps) - 2))"
    "GetPoint cps (int (length cps) - 1) = Some (cps ! nat (int (length cps) - 1))"
    using r by (simp_all add: GetPoint_def)
  then show ?thesis
    by (cases ends)
       (auto simp: SetKochanekSplineParameters_def Let_def split: prod.splits)
qed

lemma CardinalSplineSamples_loop:
  assumes "cps \<noteq> []" "0 \<le> seg" "int (length cps) * seg + 2 \<le> INT_MAX"
  shows "\<exists>dense. CardinalSplineSamples env cps seg True = Some dense
           \<and> int (length dense) = int (length cps) * seg + 2"
  using SplineSamples_loop [OF assms]
  by (simp add: CardinalSplineSamples_def split: prod.splits)

lemma KochanekSplineSamples_loop:
  assumes "2 \<le> length cps" "0 \<le> seg" "int (length cps) * seg + 2 \<le> INT_MAX"
  shows "\<exists>dense. KochanekSplineSamples env cps seg True bias continuity tension ends = Some dense
           \<and> int (length dense) = int (length cps) * seg + 2"
proof -
  have ne: "cps \<noteq> []" using assms(1) by auto
  from SetKochanekSplineParameters_Some [OF assms(1)]
  obtain sx sy sz where
    "SetKochanekSplineParameters cps NewKochanekSpline NewKochanekSpline NewKochanekSpline True
       bias continuity tension ends = Some (sx, sy, sz)"
    by (metis prod_cases3)
  then show ?thesis
    using SplineSamples_loop [OF ne assms(2,3)]
    by (simp add: KochanekSplineSamples_def)
qed

lemma looped_samples_closed:
  assumes "2 \<le> length cps" "1 \<le> seg"
    and "samples = Some dense" "int (length dense) = int (length cps) * seg + 2"
  shows "\<exists>joined. seamClosed dense joined
           \<and> Option.bind samples (closeIfLoop True) = Some joined"
proof -
  have "0 \<le> int (length cps) * seg" using assms(2) by simp
  then have "2 \<le> int (length dense)" using assms(4) by simp
  then have "2 \<le> length dense" by simp
  from CloseLoop_seamClosed [OF this] obtain joined where "seamClosed dense joined" ..
  then show ?thesis
    using assms(3) by (auto simp: closeIfLoop_def seamClosed_def)
qed

lemmas spline_eval = GenerateCardinalSplineCurveModel_def CardinalSplineSamples_def
  SetCardinalSplineParameters_def NewCardinalSpline_def
  GenerateKochanekSplineCurveModel_def KochanekSplineSamples_def
  SetKochanekSplineParameters_def NewKochanekSpline_def
  SplineSamples_def splineSegments.simps exampleVtk_def

text \<open>
  C6, as the source has it: on a loop of at least two control points, with at least one
  segment between control points and a buffer size \<open>N * segments + 2\<close> in the range of an
  \<^verbatim>\<open>int\<close>, each of the linear, the cardinal and the Kochanek generator makes
  \<open>N * segments + 2\<close> samples, \<^verbatim>\<open>CloseLoop\<close> puts the midpoint of samples 0 and 1 into slot 0 and
  into the last slot, so the first and the last point of the sequence are the same, and
  the mesh is built from that sequence.  (On two points the spline generators run the
  linear one.)
\<close>

theorem looped_curve_is_closed:
  assumes "2 \<le> length cps" "1 \<le> seg" "int (length cps) * seg + 2 \<le> INT_MAX"
  shows "(\<exists>dense joined.
            PiecewiseLinearSamples env cps seg True = Some dense
            \<and> int (length dense) = int (length cps) * seg + 2
            \<and> seamClosed dense joined
            \<and> GeneratePiecewiseLinearCurveModel env (Some cps) (Some out) radius sides seg True
                = Some (GetTubePolyDataFromPoints env (Some joined) (Some out) radius sides))
         \<and> (\<exists>dense joined.
            (if length cps = 2 then PiecewiseLinearSamples env cps seg True
             else CardinalSplineSamples env cps seg True) = Some dense
            \<and> int (length dense) = int (length cps) * seg + 2
            \<and> seamClosed dense joined
            \<and> GenerateCardinalSplineCurveModel env (Some cps) (Some out) radius sides seg True
                = Some (GetTubePolyDataFromPoints env (Some joined) (Some out) radius sides))
         \<and> (\<exists>dense joined.
            (if length cps = 2 then PiecewiseLinearSamples env cps seg True
             else KochanekSplineSamples env cps seg True bias continuity tension ends)
              = Some dense
            \<and> int (length dense) = int (length cps) * seg + 2
            \<and> seamClosed dense joined
            \<and> GenerateKochanekSplineCurveModel env (Some cps) (Some out) radius sides seg True
                  bias continuity tension ends
                = Some (GetTubePolyDataFromPoints env (Some joined) (Some out) radius sides))"
proof -
  have ne: "cps \<noteq> []" and seg: "0 \<le> seg" using assms by auto
  have n: "\<not> int (length cps) \<le> 0" "int (length cps) \<noteq> 1" using assms(1) by auto
  note fits = assms(3)
  note closed = looped_samples_closed [OF assms(1,2)]
  from PiecewiseLinearSamples_loop [OF ne seg fits, of env]
  obtain dl where dl: "PiecewiseLinearSamples env cps seg True = Some dl"
    "int (length dl) = int (length cps) * seg + 2" by blast
  from closed [OF dl]
  obtain jl where jl: "seamClosed dl jl"
    "Option.bind (PiecewiseLinearSamples env cps seg True) (closeIfLoop True) = Some jl"
    by blast
  have linear:
    "GeneratePiecewiseLinearCurveModel env (Some cps) (Some out) radius sides seg True
       = Some (GetTubePolyDataFromPoints env (Some jl) (Some out) radius sides)"
    using n jl(2) by (simp add: GeneratePiecewiseLinearCurveModel_def)
  from CardinalSplineSamples_loop [OF ne seg fits, of env]
  obtain dc where dc: "CardinalSplineSamples env cps seg True = Some dc"
    "int (length dc) = int (length cps) * seg + 2" by blast
  from closed [OF dc]
  obtain jc where jc: "seamClosed dc jc"
    "Option.bind (CardinalSplineSamples env cps seg True) (closeIfLoop True) = Some jc"
    by blast
  from KochanekSplineSamples_loop [OF assms(1) seg fits, of env bias continuity tension ends]
  obtain dk where dk:
    "KochanekSplineSamples env cps seg True bias continuity tension ends = Some dk"
    "int (length dk) = int (length cps) * seg + 2" by blast
  from closed [OF dk]
  obtain jk where jk: "seamClosed dk jk"
    "Option.bind (KochanekSplineSamples env cps seg True bias continuity tension ends)
       (closeIfLoop True) = Some jk"
    by blast
  have cardinal:
    "\<exists>dense joined.
        (if length cps = 2 then PiecewiseLinearSamples env cps seg True
         else CardinalSplineSamples env cps seg True) = Some dense
        \<and> int (length dense) = int (length cps) * seg + 2
        \<and> seamClosed dense joined
        \<and> GenerateCardinalSplineCurveModel env (Some cps) (Some out) radius sides seg True
            = Some (GetTubePolyDataFromPoints env (Some joined) (Some out) radius sides)"
  proof (cases "length cps = 2")
    case True
    then have "GenerateCardinalSplineCurveModel env (Some cps) (Some out) radius sides seg True
       = Some (GetTubePolyDataFromPoints env (Some jl) (Some out) radius sides)"
      using linear by (simp add: GenerateCardinalSplineCurveModel_def)
    then show ?thesis using True dl jl(1) by auto
  next
    case False
    then have "GenerateCardinalSplineCurveModel env (Some cps) (Some out) radius sides seg True
       = Some (GetTubePolyDataFromPoints env (Some jc) (Some out) radius sides)"
      using n jc(2) by (simp add: GenerateCardinalSplineCurveModel_def)
    then show ?thesis using False dc jc(1) by auto
  qed
  have kochanek:
    "\<exists>dense joined.
        (if length cps = 2 then PiecewiseLinearSamples env cps seg True
         else KochanekSplineSamples env cps seg True bias continuity tension ends) = Some dense
        \<and> int (length dense) = int (length cps) * seg + 2
        \<and> seamClosed dense joined
        \<and> GenerateKochanekSplineCurveModel env (Some cps) (Some out) radius sides seg True
              bias continuity tension ends
            = Some (GetTubePolyDataFromPoints env (Some joined) (Some out) radius sides)"
  proof (cases "length cps = 2")
    case True
    then have "GenerateKochanekSplineCurveModel env (Some cps) (Some out) radius sides seg True
         bias continuity tension ends
       = Some (GetTubePolyDataFromPoints env (Some jl) (Some out) radius sides)"
      using linear by (simp add: GenerateKochanekSplineCurveModel_def)
    then show ?thesis using True dl jl(1) by auto
  next
    case False
    then have "GenerateKochanekSplineCurveModel env (Some cps) (Some out) radius sides seg True
         bias continuity tension ends
       = Some (GetTubePolyDataFromPoints env (Some jk) (Some out) radius sides)"
      using n jk(2) by (simp add: GenerateKochanekSplineCurveModel_def)
    then show ?thesis using False dk jk(1) by auto
  qed
  from dl jl(1) linear have
    "\<exists>dense joined.
        PiecewiseLinearSamples env cps seg True = Some dense
        \<and> int (length dense) = int (length cps) * seg + 2
        \<and> seamClosed dense joined
        \<and> GeneratePiecewiseLinearCurveModel env (Some cps) (Some out) radius sides seg True
            = Some (GetTubePolyDataFromPoints env (Some joined) (Some out) radius sides)"
    by blast
  then show ?thesis using cardinal kochanek by blast
qed

theorem looped_curve_is_closed_witness:
  "2 \<le> length [(0, 0, 0), (2, 0, 0), (2, 2, 0) :: point] \<and> (1 :: int) \<le> 1
   \<and> int (length [(0, 0, 0), (2, 0, 0), (2, 2, 0) :: point]) * 1 + 2 \<le> INT_MAX
   \<and> (\<exists>dense joined.
         PiecewiseLinearSamples exampleVtk [(0, 0, 0), (2, 0, 0), (2, 2, 0)] 1 True = Some dense
         \<and> int (length dense) = 5
         \<and> seamClosed dense joined
         \<and> GeneratePiecewiseLinearCurveModel exampleVtk (Some [(0, 0, 0), (2, 0, 0), (2, 2, 0)])
               (Some Initialize) 0 8 1 True
             = Some (GetTubePolyDataFromPoints exampleVtk (Some joined) (Some Initialize) 0 8))
   \<and> (\<exists>dense joined.
         CardinalSplineSamples exampleVtk [(0, 0, 0), (2, 0, 0), (2, 2, 0)] 1 True = Some dense
         \<and> int (length dense) = 5
         \<and> seamClosed dense joined
         \<and> GenerateCardinalSplineCurveModel exampleVtk (Some [(0, 0, 0), (2, 0, 0), (2, 2, 0)])
               (Some Initialize) 0 8 1 True
             = Some (GetTubePolyDataFromPoints exampleVtk (Some joined) (Some Initialize) 0 8))
   \<and> (\<exists>dense joined.
         KochanekSplineSamples exampleVtk [(0, 0, 0), (2, 0, 0), (2, 2, 0)] 1 True 0 0 0 True
           = Some dense
         \<and> int (length dense) = 5
         \<and> seamClosed dense joined
         \<and> GenerateKochanekSplineCurveModel exampleVtk (Some [(0, 0, 0), (2, 0, 0), (2, 2, 0)])
               (Some Initialize) 0 8 1 True 0 0 0 True
             = Some (GetTubePolyDataFromPoints exampleVtk (Some joined) (Some Initialize) 0 8))
   \<and> GeneratePiecewiseLinearCurveModel exampleVtk (Some [(0, 0, 0), (2, 0, 0), (2, 2, 0)])
         (Some Initialize) 0 8 1 True
       = Some (Some \<lparr>Points = [(1, 0, 0), (2, 0, 0), (2, 2, 0), (0, 0, 0), (1, 0, 0)],
                      Verts = [], Lines = [(5, [0, 1, 2, 3, 4])], Polys = [], Strips = []\<rparr>,
               [])"
proof -
  have h: "2 \<le> length [(0, 0, 0), (2, 0, 0), (2, 2, 0) :: point]" "(1 :: int) \<le> 1"
    "int (length [(0, 0, 0), (2, 0, 0), (2, 2, 0) :: point]) * 1 + 2 \<le> INT_MAX"
    by (simp_all add: INT_MAX_def)
  have e: "GeneratePiecewiseLinearCurveModel exampleVtk (Some [(0, 0, 0), (2, 0, 0), (2, 2, 0)])
         (Some Initialize) 0 8 1 True
       = Some (Some \<lparr>Points = [(1, 0, 0), (2, 0, 0), (2, 2, 0), (0, 0, 0), (1, 0, 0)],
                      Verts = [], Lines = [(5, [0, 1, 2, 3, 4])], Polys = [], Strips = []\<rparr>,
               [])"
    by (simp add: linear_eval exampleVtk_def)
  from looped_curve_is_closed [OF h, of exampleVtk Initialize 0 8 0 0 0 True]
  show ?thesis
    using h by (simp add: e)
qed

text \<open>
  C6 as stated fails where the buffer size leaves the range of an \<^verbatim>\<open>int\<close>: with two control
  points and \<open>2\<^sup>3\<^sup>0\<close> segments between them, \<open>N * segments + 2\<close> wraps to \<open>-2147483646\<close>,
  \<^verbatim>\<open>SetNumberOfPoints\<close> is called with that, and no generator makes a sequence of samples.
\<close>

theorem looped_curve_overflow:
  "int32 (int (length [(0, 0, 0), (2, 0, 0) :: point]) * 1073741824 + 2) = - 2147483646
   \<and> AllocateCurvePoints exampleVtk [(0, 0, 0), (2, 0, 0)] 1073741824 True = None
   \<and> PiecewiseLinearSamples exampleVtk [(0, 0, 0), (2, 0, 0)] 1073741824 True = None
   \<and> GeneratePiecewiseLinearCurveModel exampleVtk (Some [(0, 0, 0), (2, 0, 0)])
         (Some Initialize) 0 8 1073741824 True = None
   \<and> GenerateCardinalSplineCurveModel exampleVtk (Some [(0, 0, 0), (2, 0, 0)])
         (Some Initialize) 0 8 1073741824 True = None
   \<and> GenerateKochanekSplineCurveModel exampleVtk (Some [(0, 0, 0), (2, 0, 0)])
         (Some Initialize) 0 8 1073741824 True 0 0 0 False = None"
  by (simp add: GeneratePiecewiseLinearCurveModel_def GenerateCardinalSplineCurveModel_def
      GenerateKochanekSplineCurveModel_def PiecewiseLinearSamples_def AllocateCurvePoints_def
      SetNumberOfPoints_def int32_def INT_MIN_def)

subsection \<open>The parameter array is cleared\<close>

lemma forEach_append_one:
  assumes "forEach xs body a = Some r"
    and "\<And>i s s'. body i s = Some s' \<Longrightarrow> \<exists>x. s' = s @ [x]"
  shows "length r = length a + length xs"
  using assms
proof (induction xs arbitrary: a)
  case Nil
  then show ?case by simp
next
  case (Cons x xs)
  from Cons.prems(1) obtain a1 where a1: "body x a = Some a1" "forEach xs body a1 = Some r"
    by (auto split: option.splits)
  from Cons.prems(2) [OF a1(1)] have "length a1 = Suc (length a)" by auto
  moreover have "length r = length a1 + length xs"
    by (rule Cons.IH [OF a1(2)]) (rule Cons.prems(2))
  ultimately show ?case by simp
qed

lemma assignParameters_length:
  assumes "assignParameters parents pathIndices params n a = Some r"
  shows "length r = length a + n"
proof -
  have "length r = length a + length [0..<n]"
    using assms unfolding assignParameters_def
    by (rule forEach_append_one)
       (auto simp: InsertNextTuple1_def split: option.splits if_splits)
  then show ?thesis by simp
qed

lemma dist3D_on_x_axis: "dist3D (a, 0, 0) (b, 0, 0) = \<bar>a - b\<bar>"
  by (simp add: dist3D_def)

lemmas mst_eval = ComputePointParametersFromMinimumSpanningTree_def measureAllPairs_def
  measurePair_def primMST_def primRound_def pickMinimumKey_def updateKeys_def
  trunkPath.simps sumOfDistances_def graph_def pathParameters_def assignParameters_def
  climbToPath.simps InsertNextTuple1_def RemoveAllTuples.simps dist3D_on_x_axis
  exampleVtk_def Let_def upt_conv_Cons int32_def INT_MIN_def

text \<open>
  C10: both parameterizers empty the array before they write.  From indices, on at least
  two points, the array ends with one entry per point and is the array made from an empty
  one.  From the minimum spanning tree, a run that ends with no warning but the one about
  old contents leaves one entry per point, the same entries as the run on an empty array.
\<close>

theorem parameterizers_clear_the_array:
  "(2 \<le> length pts \<longrightarrow>
      (\<exists>ps ws. ComputePointParametersFromIndices (Some pts) (Some old) = (Some ps, ws)
         \<and> length ps = length pts
         \<and> ComputePointParametersFromIndices (Some pts) (Some []) = (Some ps, [])))
   \<and> (ComputePointParametersFromMinimumSpanningTree env (Some pts) (Some old)
         = Some (Some ps, ws)
       \<and> set ws \<subseteq> {AlreadyHasContents} \<longrightarrow>
       length ps = length pts
       \<and> ComputePointParametersFromMinimumSpanningTree env (Some pts) (Some [])
           = Some (Some ps, []))"
proof (intro conjI impI)
  assume "2 \<le> length pts"
  from ComputePointParametersFromIndices_value [OF this]
  show "\<exists>ps ws. ComputePointParametersFromIndices (Some pts) (Some old) = (Some ps, ws)
         \<and> length ps = length pts
         \<and> ComputePointParametersFromIndices (Some pts) (Some []) = (Some ps, [])"
    by simp
next
  assume h: "ComputePointParametersFromMinimumSpanningTree env (Some pts) (Some old)
         = Some (Some ps, ws)
       \<and> set ws \<subseteq> {AlreadyHasContents}"
  from h have n: "\<not> int (length pts) < 2"
    by (auto simp: ComputePointParametersFromMinimumSpanningTree_def Let_def)
  from h n obtain g where g: "measureAllPairs pts = Some g"
    by (auto simp: ComputePointParametersFromMinimumSpanningTree_def Let_def
        split: option.splits)
  from h n g obtain t where t: "primMST env (distances g) (length pts) (treeStartIndex g) = Some t"
    by (auto simp: ComputePointParametersFromMinimumSpanningTree_def Let_def
        split: option.splits)
  from h n g t obtain path where path: "trunkPath (parent t) (treeEndIndex g) [] = Some path"
    by (auto simp: ComputePointParametersFromMinimumSpanningTree_def Let_def
        split: option.splits)
  from h n g t path obtain len where
    len: "sumOfDistances (distances g) (int (length pts)) path = Some len"
    by (auto simp: ComputePointParametersFromMinimumSpanningTree_def Let_def
        split: option.splits)
  from h n g t path len have nz: "len \<noteq> 0"
    by (auto simp: ComputePointParametersFromMinimumSpanningTree_def Let_def)
  from h n g t path len nz obtain params where
    params: "pathParameters (distances g) (int (length pts)) path len = Some params"
    by (auto simp: ComputePointParametersFromMinimumSpanningTree_def Let_def
        split: option.splits)
  have cleared: "(if length old > 0 then RemoveAllTuples old else old) = []"
    by (simp add: RemoveAllTuples_Nil)
  from h n g t path len nz params
  have a: "assignParameters (parent t) path params (length pts) [] = Some ps"
    using cleared
    by (auto simp: ComputePointParametersFromMinimumSpanningTree_def Let_def
        RemoveAllTuples_Nil split: option.splits if_splits)
  show "length ps = length pts"
    using assignParameters_length [OF a] by simp
  show "ComputePointParametersFromMinimumSpanningTree env (Some pts) (Some [])
           = Some (Some ps, [])"
    using n g t path len nz params a
    by (simp add: ComputePointParametersFromMinimumSpanningTree_def Let_def)
qed

theorem parameterizers_clear_the_array_witness:
  "2 \<le> length [(0, 0, 0), (2, 0, 0), (1, 0, 0) :: point]
   \<and> (\<exists>ps ws. ComputePointParametersFromIndices (Some [(0, 0, 0), (2, 0, 0), (1, 0, 0)])
                   (Some [5]) = (Some ps, ws)
          \<and> length ps = 3
          \<and> ComputePointParametersFromIndices (Some [(0, 0, 0), (2, 0, 0), (1, 0, 0)]) (Some [])
              = (Some ps, []))
   \<and> ComputePointParametersFromMinimumSpanningTree exampleVtk
         (Some [(0, 0, 0), (2, 0, 0), (1, 0, 0)]) (Some [5])
       = Some (Some [1, 0, 2 / 3], [AlreadyHasContents])
   \<and> set [AlreadyHasContents] \<subseteq> {AlreadyHasContents}
   \<and> length [1, 0, 2 / 3 :: real] = 3
   \<and> ComputePointParametersFromMinimumSpanningTree exampleVtk
         (Some [(0, 0, 0), (2, 0, 0), (1, 0, 0)]) (Some [])
       = Some (Some [1, 0, 2 / 3], [])"
proof -
  have two: "2 \<le> length [(0, 0, 0), (2, 0, 0), (1, 0, 0) :: point]" by simp
  have run: "ComputePointParametersFromMinimumSpanningTree exampleVtk
         (Some [(0, 0, 0), (2, 0, 0), (1, 0, 0)]) (Some [5])
       = Some (Some [1, 0, 2 / 3], [AlreadyHasContents])"
    by (simp add: mst_eval)
  from parameterizers_clear_the_array [of "[(0, 0, 0), (2, 0, 0), (1, 0, 0)]" "[5]" exampleVtk
      "[1, 0, 2 / 3]" "[AlreadyHasContents]"]
  show ?thesis
    using two run by (simp add: numeral_3_eq_3)
qed

subsection \<open>Parameters from the minimum spanning tree\<close>

text \<open>
  The distances are \<open>N * N\<close> numbers, and that product is an \<^verbatim>\<open>int\<close>: on 46341 points it
  wraps to a negative size, and the run ends at line 766.
\<close>

lemma measureAllPairs_overflow:
  "length pts = 46341 \<Longrightarrow> measureAllPairs pts = None"
  by (simp add: measureAllPairs_def int32_def INT_MIN_def)

text \<open>
  C1 says that the trunk length is the sum of the edge lengths along the trunk, that a
  vertex of the trunk receives its distance from the start vertex along the trunk over
  that length, and that points in index order at unit spacing receive \<open>i / (N - 1)\<close>.  The
  comments of lines 854, 863 and 877 say the same; the code does not do it.

  Take the points 0, 2 and 1 of the \<open>x\<close> axis, in that order.  The farthest pair is the
  start vertex 0 and the end vertex 1, the tree has the edges from 0 to 2 and from 2 to 1,
  both of length 1, and the trunk is walked from the end: 1, 2, 0.  The sum of line 867
  adds \<^verbatim>\<open>graph[0][1]\<close> and \<^verbatim>\<open>graph[1][2]\<close>, the distances between the points with consecutive
  indices, not between consecutive vertices of the trunk: it is 3 and not 2.  Line 883 adds
  the same, and the parameters are counted from the end vertex: the points receive 1, 0
  and \<open>2 / 3\<close>, where the distance from the start vertex along the trunk over its length is
  0, 1 and \<open>1 / 2\<close>.  On three points in index order at unit spacing the two sums agree,
  and the points receive 1, \<open>1 / 2\<close> and 0 where the claim has 0, \<open>1 / 2\<close> and 1.
\<close>

theorem spanning_tree_trunk_example:
  "measureAllPairs [(0, 0, 0), (2, 0, 0), (1, 0, 0)]
     = Some \<lparr>distances = [0, 2, 1, 2, 0, 1, 1, 1, 0], treeStartIndex = 0, treeEndIndex = 1,
             maximumDistance = 2\<rparr>
   \<and> map_option parent (primMST exampleVtk [0, 2, 1, 2, 0, 1, 1, 1, 0] 3 0) = Some [- 1, 2, 0]
   \<and> trunkPath [- 1, 2, 0] 1 [] = Some [1, 2, 0]
   \<and> graph [0, 2, 1, 2, 0, 1, 1, 1, 0] 3 1 2 = Some 1
   \<and> graph [0, 2, 1, 2, 0, 1, 1, 1, 0] 3 2 0 = Some 1
   \<and> sumOfDistances [0, 2, 1, 2, 0, 1, 1, 1, 0] 3 [1, 2, 0] = Some 3
   \<and> pathParameters [0, 2, 1, 2, 0, 1, 1, 1, 0] 3 [1, 2, 0] 3 = Some [0, 2 / 3, 1]
   \<and> ComputePointParametersFromMinimumSpanningTree exampleVtk
         (Some [(0, 0, 0), (2, 0, 0), (1, 0, 0)]) (Some [])
       = Some (Some [1, 0, 2 / 3], [])
   \<and> ComputePointParametersFromMinimumSpanningTree exampleVtk
         (Some [(0, 0, 0), (1, 0, 0), (2, 0, 0)]) (Some [])
       = Some (Some [1, 1 / 2, 0], [])"
proof -
  have "replicate 9 (0 :: real) = [0, 0, 0, 0, 0, 0, 0, 0, 0]"
    by (simp add: numeral_eq_Suc)
  then show ?thesis
    by (simp add: mst_eval numeral_3_eq_3)
qed

end
